theory Spec2Isabelle
  imports Complex_Main
begin

section \<open>Data model\<close>

text \<open>
  The records follow the Mongoose schemas of Models/Claim.js (src/unnamed/part_008),
  Models/User.js (the second part of src/Servers/Models/Premium.js), Models/Analytics.js
  and Models/Premium.js, restricted to the fields that the claim
  pipeline and the premium calculator read or write. JavaScript numbers are modelled as
  exact reals (counts and identifiers as naturals, fraud penalties as integers), dates as
  integer milliseconds since the epoch (what \<open>getTime()\<close> returns), and \<open>undefined\<close> as
  \<open>None\<close>. \<open>Date.now()\<close> is the parameter \<open>now\<close> of every operation.

  \<open>save()\<close> runs the validators of the schema. The values the operations write satisfy
  them by construction, and stored documents and request strings are taken to satisfy
  them, in all but three places, where the failure of \<open>save()\<close> is a branch of the model:
  the payout that \<open>calculatePayout\<close> stores (minimum 0), the repay amount that
  \<open>handleReinstatement\<close> stores (a number, minimum 0), and the user document that
  \<open>handleReinstatement\<close> saves, whose claim history holds entries that were pushed by
  update queries, which run no validator.
\<close>

type_synonym oid = nat
type_synonym time = int

datatype incident_type = Full_suspension | Limited_ads | Video_demonetization

datatype appeal_status = Not_started | In_progress | Appeal_Rejected

datatype covered_reason =
  AD_SUITS | POLICY_UPDATE | TEMP_SUSPEND | GLITCH | COPYRIGHT | OTHER_NOT_COVERED

datatype monetization_status = LIMITED | SUSPENDED | NONE

datatype status =
  Submitted | Under_Review | AI_Reviewed | Manual_Review | Approved | Rejected | Paid
  | Reinstated

text \<open>
  What an operation raises. A ValidationError holds the name of the model whose document
  failed validation.
\<close>

datatype error = Error string | TypeError string | ReferenceError string
  | ValidationError string

text \<open>
  Notes and in-app messages. The literal strings of the source are kept; a template string
  is a constructor holding the values it interpolates.
\<close>

datatype message =
  Text string
  | NotCoveredDetected covered_reason
  | ClaimApproved int time
  | ReinstatedRepay int time
  | ApprovedAfterReview real
  | ApprovedAfterReviewRounded int

record claimDetails =
  userId :: oid
  incidentType :: incident_type
  incidentDate :: time
  appealStatus :: appeal_status

record manual_review =
  reviewerId :: oid
  review_notes :: string
  review_isValid :: bool

text \<open>
  \<open>aiAnalysis\<close> is flattened into the evaluation (\<open>aiAnalysis_\<close> prefix). A number the
  schema gives no default is an option.
\<close>

record evaluation =
  revenueDropPercent :: "real option"
  lostDays :: nat
  baselineDaily :: "real option"
  verifiedEarningsLoss :: "real option"
  coveredReason :: covered_reason
  monetizationStatus :: monetization_status
  strikes :: nat
  doubleDipCheck :: bool
  aiAnalysis_isValid :: "bool option"
  aiAnalysis_confidenceScore :: "real option"
  aiAnalysis_fraudScore :: int
  aiAnalysis_reasons :: "(string \<times> int) list"
  manualReview :: "manual_review option"
  payoutAmount :: "real option"
  payoutDate :: "time option"
  mPesaTransactionId :: "(time \<times> nat) option"
  repayAmount :: "real option"
  reinstated :: bool

record history_entry =
  status :: status
  date :: time
  updatedBy :: "oid option"
  entry_notes :: message
  inAppMessage :: message

text \<open>
  A claim document. \<open>statusHistory\<close> is the array \<open>statusHistory.history\<close>. The three
  \<open>top_\<close> fields are what the expressions \<open>this.incidentType\<close>, \<open>this.reinstated\<close> and the
  query path \<open>incidentDate\<close> read at the top level of the document: claimSchema declares
  \<open>incidentType\<close> and \<open>incidentDate\<close> inside \<open>claimDetails\<close> and \<open>reinstated\<close> inside
  \<open>evaluation\<close> only, so a document of the Claim model has them undefined (\<open>None\<close>),
  and no operation of the source writes them.
\<close>

record claim =
  claim_id :: oid
  claimDetails :: claimDetails
  policyId :: oid
  evaluation :: evaluation
  statusHistory :: "history_entry list"
  createdAt :: time
  top_incidentType :: "incident_type option"
  top_incidentDate :: "time option"
  top_reinstated :: "bool option"

record earnings_entry =
  earned_on :: time
  amount :: real

record analytics =
  avgDailyRevenue90d :: real
  earningsHistory :: "earnings_entry list"

record video =
  publishedAt :: time

datatype role = Creator | Admin

datatype insurance_status =
  NotApplied | Pending | InsuranceApproved | InsuranceRejected | Surrendered

text \<open>
  The status of an entry of a user's claim history is a string. The User schema
  (\<open>claimHistorySchema\<close>) restricts it to 'Pending', 'Approved' and 'Rejected';
  \<open>submitClaim\<close> and \<open>processPayout\<close> push the status strings of claims, by
  \<open>findByIdAndUpdate\<close>, which does not run the validators. \<open>ClaimStatus s\<close> is the
  string of the claim status \<open>s\<close>.
\<close>

datatype user_claim_status = PendingClaim | ClaimStatus status

definition inUserEnum :: "user_claim_status \<Rightarrow> bool" where
  "inUserEnum s \<longleftrightarrow>
     s = PendingClaim \<or> s = ClaimStatus Approved \<or> s = ClaimStatus Rejected"

record claim_history_entry =
  entry_claimId :: oid
  entry_status :: user_claim_status
  dateSubmitted :: time
  entry_payoutAmount :: real

text \<open>
  A user document, by the paths the source reads. \<open>youtube_videos\<close> is what the
  expression \<open>user.platformInfo.youtube.videos\<close> reads and \<open>channel_publishedAt\<close> what
  \<open>user.platformInfo.youtube.channel.publishedAt\<close> reads, both in \<open>scanFraud\<close>. The User
  schema declares the video list as \<open>platformInfo.youtube.channel.videos\<close> and no
  \<open>publishedAt\<close> of the channel, so on a document of the User model both are undefined
  (\<open>None\<close>): that is \<open>loadedUser\<close>.
\<close>

record user =
  fullName :: string
  email :: string
  role :: role
  youtube_videos :: "video list option"
  channel_publishedAt :: "time option"
  mobileNumber :: string
  monthlyEarnings :: real
  premium_insuranceId :: "oid option"
  claimHistory :: "claim_history_entry list"
  insuranceStatus_status :: insurance_status
  policyEndDate :: time
  insuranceStatus_fraudScore :: real

definition loadedUser :: "user \<Rightarrow> bool" where
  "loadedUser u \<longleftrightarrow> youtube_videos u = None \<and> channel_publishedAt u = None"

text \<open>
  What \<open>user.save()\<close> validates on the paths the claim operations write: the entries of
  the claim history (status of the enum, payout at least 0) and the fraud standing
  (between 0 and 100).
\<close>

definition userValidates :: "user \<Rightarrow> bool" where
  "userValidates u \<longleftrightarrow>
     list_all (\<lambda>e. inUserEnum (entry_status e) \<and> 0 \<le> entry_payoutAmount e) (claimHistory u)
     \<and> 0 \<le> insuranceStatus_fraudScore u \<and> insuranceStatus_fraudScore u \<le> 100"

record adjustment =
  adj_percentage :: real
  adj_reason :: string
  adjustedBy :: oid
  adjustedAt :: time
  newFinalAmount :: real
  newFinalPercentage :: real

record calculation =
  calc_date :: time
  calc_basePercentage :: real
  calc_discount_percentage :: real
  calc_finalPercentage :: real
  calc_finalAmount :: real
  calculatedBy :: "oid option"

record premium =
  premium_userId :: oid
  basePercentage :: real
  discount_percentage :: real
  discount_reason :: string
  preventiveServiceDiscount :: real
  finalPercentage :: real
  finalAmount :: real
  monthlyCap :: real
  manualAdjustment :: "adjustment option"
  adjustmentHistory :: "adjustment list"
  calculations :: "calculation list"
  dueDate :: time

datatype mail =
  ClaimStatusMail string status message real
  | ClaimReviewedMail string status string
  | ClaimReinstatedMail string "real option"

text \<open>
  The collections the operations query: \<open>Analytics.findOne({userId})\<close>,
  \<open>User.findById\<close>, \<open>Premium.findById\<close>, \<open>Claim.find\<close>, and the mails handed to
  \<open>sendEmail\<close>. \<open>strictQuery\<close> is the Mongoose option of that name, which decides what
  \<open>Claim.find\<close> does with a filter path that the schema does not declare: when it is
  false the condition is sent to the database as written, when it is true the condition
  is removed from the filter. The source neither sets the option nor fixes the version of
  Mongoose, and the default of the option differs between the major versions, so it is a
  parameter of the model.
\<close>

record db =
  analyticsByUser :: "oid \<rightharpoonup> analytics"
  usersById :: "oid \<rightharpoonup> user"
  premiumsById :: "oid \<rightharpoonup> premium"
  claimDocs :: "claim list"
  outbox :: "mail list"
  strictQuery :: bool

text \<open>The user with identifier \<open>uid\<close>, when there is one, is a document of the User model.\<close>

definition userLoaded :: "oid \<Rightarrow> db \<Rightarrow> bool" where
  "userLoaded uid d = (case usersById d uid of None \<Rightarrow> True | Some u \<Rightarrow> loadedUser u)"

definition ownerLoaded :: "claim \<Rightarrow> db \<Rightarrow> bool" where
  "ownerLoaded c d = userLoaded (userId (claimDetails c)) d"

section \<open>JavaScript helpers\<close>

definition day_ms :: int where
  "day_ms = 24 * 60 * 60 * 1000"

text \<open>\<open>x || d\<close> on numbers: zero and undefined are falsy.\<close>

definition js_or :: "real \<Rightarrow> real \<Rightarrow> real" where
  "js_or x d = (if x = 0 then d else x)"

definition js_or_opt :: "real option \<Rightarrow> real \<Rightarrow> real" where
  "js_or_opt x d = (case x of None \<Rightarrow> d | Some v \<Rightarrow> js_or v d)"

definition js_or_int :: "int option \<Rightarrow> int \<Rightarrow> int" where
  "js_or_int x d = (case x of None \<Rightarrow> d | Some v \<Rightarrow> if v = 0 then d else v)"

text \<open>\<open>Math.round\<close>: to the nearest integer, halves upwards.\<close>

definition js_round :: "real \<Rightarrow> int" where
  "js_round x = \<lfloor>x + 1 / 2\<rfloor>"

text \<open>\<open>xs.slice(-n)\<close>: the last \<open>n\<close> elements.\<close>

definition slice_last :: "nat \<Rightarrow> 'a list \<Rightarrow> 'a list" where
  "slice_last n xs = drop (length xs - n) xs"

text \<open>The mean as the source writes it: \<open>xs.length > 0 ? sum / xs.length : d\<close>.\<close>

definition avg_or :: "earnings_entry list \<Rightarrow> real \<Rightarrow> real" where
  "avg_or hs d =
     (if length hs > 0 then sum_list (map amount hs) / real (length hs) else d)"

section \<open>Claim methods (Models/Claim.js, in src/unnamed/part_008)\<close>

text \<open>
  \<open>updateStatus\<close> pushes one entry and saves; what it returns, the entry just pushed, is
  the last element of the new history.
\<close>

definition updateStatus ::
  "status \<Rightarrow> oid option \<Rightarrow> message \<Rightarrow> message \<Rightarrow> time \<Rightarrow> claim \<Rightarrow> claim" where
  "updateStatus newStatus by nts msg now c =
     c\<lparr>statusHistory := statusHistory c @
        [\<lparr>status = newStatus, date = now, updatedBy = by, entry_notes = nts,
          inAppMessage = msg\<rparr>]\<rparr>"

text \<open>The current status of a claim, as every controller reads it: the last history entry.\<close>

definition currentStatus :: "claim \<Rightarrow> status option" where
  "currentStatus c =
     (if statusHistory c = [] then None else Some (status (last (statusHistory c))))"

text \<open>
  \<open>autoPullData\<close>: the baseline over the last seven entries before the incident (the
  90-day average when there is none), the drop against the first ten entries from the
  incident on, and the count of those below 30% of the baseline. It returns
  \<open>{drop, lostDays, baselineAvg}\<close> with the count as counted, and stores the count
  floored at 3.
\<close>

record pull_result =
  pulled_drop :: real
  pulled_lostDays :: nat
  pulled_baselineAvg :: real

definition preIncident :: "analytics \<Rightarrow> time \<Rightarrow> earnings_entry list" where
  "preIncident a d = slice_last 7 (filter (\<lambda>h. earned_on h < d) (earningsHistory a))"

definition postIncident :: "analytics \<Rightarrow> time \<Rightarrow> earnings_entry list" where
  "postIncident a d = take 10 (filter (\<lambda>h. d \<le> earned_on h) (earningsHistory a))"

definition autoPullData :: "claim \<Rightarrow> db \<Rightarrow> error + (pull_result \<times> claim)" where
  "autoPullData c d =
     (case analyticsByUser d (userId (claimDetails c)) of
        None \<Rightarrow> Inl (Error ''No analytics data'')
      | Some a \<Rightarrow>
          let incident = incidentDate (claimDetails c);
              baselineAvg = avg_or (preIncident a incident) (avgDailyRevenue90d a);
              postHistory = postIncident a incident;
              recentAvg = avg_or postHistory 0;
              dropPct = (if baselineAvg > 0
                         then max 0 ((baselineAvg - recentAvg) / baselineAvg * 100) else 0);
              lost = length (filter (\<lambda>h. amount h < baselineAvg * 0.3) postHistory)
          in Inr (\<lparr>pulled_drop = dropPct, pulled_lostDays = lost,
                    pulled_baselineAvg = baselineAvg\<rparr>,
                  c\<lparr>evaluation := (evaluation c)
                     \<lparr>revenueDropPercent := Some dropPct,
                      baselineDaily := Some baselineAvg,
                      lostDays := max 3 lost,
                      monetizationStatus := LIMITED,
                      strikes := 0\<rparr>\<rparr>))"

text \<open>
  \<open>calculatePayout\<close>. The cap is \<open>premium?.premiumDetails.monthlyCap || 65000\<close>: 65000
  when the policy is not found or its cap is zero. The total is written to
  \<open>evaluation.payoutAmount\<close> and \<open>evaluation.verifiedEarningsLoss\<close>, both of minimum 0 in
  the schema: for a negative total \<open>save()\<close> raises and nothing is stored.
\<close>

definition effectiveCap :: "premium option \<Rightarrow> real" where
  "effectiveCap p = (case p of None \<Rightarrow> 65000 | Some q \<Rightarrow> js_or (monthlyCap q) 65000)"

definition calculatePayout :: "claim \<Rightarrow> db \<Rightarrow> error + (real \<times> claim)" where
  "calculatePayout c d =
     (let baseline = js_or_opt (baselineDaily (evaluation c)) 0;
          payoutDaily = baseline * 0.70;
          cap = effectiveCap (premiumsById d (policyId c));
          total = min (payoutDaily * real (lostDays (evaluation c))) cap
      in if total < 0 then Inl (ValidationError ''Claim'')
         else Inr (total, c\<lparr>evaluation := (evaluation c)
                    \<lparr>payoutAmount := Some total, verifiedEarningsLoss := Some total\<rparr>\<rparr>))"

definition covered :: "covered_reason list" where
  "covered = [AD_SUITS, POLICY_UPDATE, TEMP_SUSPEND, GLITCH]"

definition enforceCoverage :: "claim \<Rightarrow> string" where
  "enforceCoverage c =
     (if coveredReason (evaluation c) \<in> set covered
         \<and> (case revenueDropPercent (evaluation c) of None \<Rightarrow> False | Some p \<Rightarrow> 70 \<le> p)
         \<and> 3 \<le> lostDays (evaluation c)
         \<and> strikes (evaluation c) < 3
      then ''approve'' else ''reject'')"

text \<open>
  \<open>scanFraud\<close>. The flags are kept as the list of the object's entries in insertion order.
  Reading \<open>.length\<close> of an undefined video list, or a field of a user that was not found,
  raises a TypeError, before anything is written to the claim.
\<close>

definition preIncident48h :: "analytics option \<Rightarrow> time \<Rightarrow> earnings_entry list" where
  "preIncident48h a d =
     (case a of None \<Rightarrow> []
      | Some x \<Rightarrow> filter (\<lambda>h. earned_on h < d \<and> d - 2 * day_ms < earned_on h)
                    (earningsHistory x))"

definition massUploadFlag :: "video list \<Rightarrow> int" where
  "massUploadFlag vs =
     (if length vs > 5
         \<and> list_all (\<lambda>v. \<bar>publishedAt v - publishedAt (hd vs)\<bar> < day_ms) (slice_last 5 vs)
      then 15 else 0)"

definition channelAge :: "time \<Rightarrow> user \<Rightarrow> real" where
  "channelAge now u =
     real_of_int (now - (case channel_publishedAt u of None \<Rightarrow> now | Some t \<Rightarrow> t))
       / (1000 * 60 * 60 * 24 * 30)"

definition fraudFlags :: "time \<Rightarrow> claim \<Rightarrow> user \<Rightarrow> video list \<Rightarrow> analytics option
    \<Rightarrow> (string \<times> int) list" where
  "fraudFlags now c u vs a =
     (let preAvg = avg_or (preIncident48h a (incidentDate (claimDetails c))) 0;
          spike = (if (case baselineDaily (evaluation c) of None \<Rightarrow> False
                       | Some b \<Rightarrow> b * 2 < preAvg) then 20 else 0)
      in [(''revenueSpike'', spike),
          (''massUpload'', massUploadFlag vs),
          (''ipBlock'', 0),
          (''copyrightMismatch'',
             if coveredReason (evaluation c) = COPYRIGHT
                \<and> top_incidentType c \<noteq> Some Video_demonetization then 25 else 0),
          (''appealRejected'',
             if appealStatus (claimDetails c) = Appeal_Rejected then 10 else 0),
          (''newChannel'', if channelAge now u < 6 then 10 else 0),
          (''nameMismatch'', if fullName u \<noteq> mobileNumber u then 5 else 0)])"

definition scoreOf :: "(string \<times> int) list \<Rightarrow> int" where
  "scoreOf flags = max 0 (100 - sum_list (map snd flags))"

definition scanFraud :: "time \<Rightarrow> claim \<Rightarrow> db \<Rightarrow> error + (int \<times> claim)" where
  "scanFraud now c d =
     (case usersById d (userId (claimDetails c)) of
        None \<Rightarrow> Inl (TypeError ''Cannot read properties of null (reading platformInfo)'')
      | Some u \<Rightarrow>
          (case youtube_videos u of
             None \<Rightarrow> Inl (TypeError ''Cannot read properties of undefined (reading length)'')
           | Some vs \<Rightarrow>
               let flags = fraudFlags now c u vs
                             (analyticsByUser d (userId (claimDetails c)));
                   score = scoreOf flags
               in Inr (score,
                       c\<lparr>evaluation := (evaluation c)
                          \<lparr>aiAnalysis_fraudScore := score,
                           aiAnalysis_isValid := Some (75 < score),
                           aiAnalysis_confidenceScore := Some 90,
                           aiAnalysis_reasons := filter (\<lambda>kv. 0 < snd kv) flags\<rparr>\<rparr>)))"

text \<open>
  \<open>processPayout\<close>. The mock transaction id is built from the clock and a random number
  \<open>rnd\<close>. \<open>findByIdAndUpdate\<close> on a missing user changes nothing.
\<close>

definition pushClaimHistory :: "oid \<Rightarrow> claim_history_entry \<Rightarrow> db \<Rightarrow> db" where
  "pushClaimHistory uid e d =
     (case usersById d uid of
        None \<Rightarrow> d
      | Some u \<Rightarrow> d\<lparr>usersById := (usersById d)(uid \<mapsto> u\<lparr>claimHistory := claimHistory u @ [e]\<rparr>)\<rparr>)"

definition processPayout :: "time \<Rightarrow> nat \<Rightarrow> real \<Rightarrow> claim \<Rightarrow> db \<Rightarrow> (time \<times> nat) \<times> claim \<times> db" where
  "processPayout now rnd amt c d =
     (let c1 = c\<lparr>evaluation := (evaluation c)
                  \<lparr>payoutDate := Some (now + 7 * day_ms),
                   mPesaTransactionId := Some (now, rnd)\<rparr>\<rparr>;
          c2 = updateStatus Paid None (Text []) (Text []) now c1
      in ((now, rnd), c2,
          pushClaimHistory (userId (claimDetails c))
            \<lparr>entry_claimId = claim_id c, entry_status = ClaimStatus Paid,
             dateSubmitted = createdAt c, entry_payoutAmount = amt\<rparr> d))"

text \<open>
  \<open>verifyClaim\<close>. The result object has the keys \<open>status\<close>, \<open>reason\<close>, \<open>payout\<close>,
  \<open>needsManual\<close> and \<open>fraudScore\<close>; a key the branch does not set is \<open>None\<close>.
\<close>

record verify_result =
  result_status :: status
  result_reason :: "message option"
  result_payout :: "real option"
  result_needsManual :: "bool option"
  result_fraudScore :: "int option"

definition typeMap :: "incident_type \<Rightarrow> covered_reason" where
  "typeMap t = (case t of Full_suspension \<Rightarrow> TEMP_SUSPEND | Limited_ads \<Rightarrow> AD_SUITS
                | Video_demonetization \<Rightarrow> POLICY_UPDATE)"

definition rejected :: "message \<Rightarrow> verify_result" where
  "rejected m = \<lparr>result_status = Rejected, result_reason = Some m, result_payout = None,
                 result_needsManual = None, result_fraudScore = None\<rparr>"

text \<open>
  The duplicate query of step 4. Its filter has four conditions: the user, the path
  \<open>incidentDate\<close> from \<open>thirtyDaysAgo\<close> on, a history entry Approved or Paid, and an
  identifier other than the claim's own. claimSchema declares no path \<open>incidentDate\<close>
  (the date is \<open>claimDetails.incidentDate\<close>). With \<open>strictQuery\<close> false the condition
  reaches the database as written: a stored claim matches it only when a top-level field
  \<open>incidentDate\<close> holds a date from \<open>thirtyDaysAgo\<close> on, and a document without the field
  does not match \<open>$gte\<close>. With \<open>strictQuery\<close> true the condition is dropped.
\<close>

definition recentClaims :: "time \<Rightarrow> claim \<Rightarrow> db \<Rightarrow> claim list" where
  "recentClaims now c d =
     filter (\<lambda>x. userId (claimDetails x) = userId (claimDetails c)
                \<and> (strictQuery d
                    \<or> (case top_incidentDate x of None \<Rightarrow> False
                        | Some t \<Rightarrow> now - 30 * day_ms \<le> t))
                \<and> list_ex (\<lambda>h. status h = Approved \<or> status h = Paid) (statusHistory x)
                \<and> claim_id x \<noteq> claim_id c)
       (claimDocs d)"

definition isDuplicate :: "time \<Rightarrow> claim \<Rightarrow> db \<Rightarrow> bool" where
  "isDuplicate now c d =
     list_ex (\<lambda>x. \<bar>incidentDate (claimDetails x) - incidentDate (claimDetails c)\<bar> < day_ms)
       (recentClaims now c d)"

text \<open>
  The messages of \<open>verifyClaim\<close>. In the first one the source writes the sign
  "greater than or equal" where this text has \<open>>=\<close>.
\<close>

definition noQualifyingLoss :: message where
  "noQualifyingLoss = Text ''Not covered: No qualifying income loss (>=70% for 3+ days).''"

definition duplicateMessage :: message where
  "duplicateMessage = Text ''Not covered: Duplicate claim for same event.''"

definition reviewMessage :: message where
  "reviewMessage = Text ''Big drop detected. Verifying in 24h.''"

definition rejectMessage :: message where
  "rejectMessage = Text ''Not covered: High fraud risk detected.''"

text \<open>
  Step 5 of \<open>verifyClaim\<close>, after the fraud scan returned \<open>fraudScore\<close> and saved the
  claim. When \<open>calculatePayout\<close> raises, the claim stays as the scan saved it. In the last
  branch the source assigns to \<open>user.insuranceStatus.fraudScore\<close>, but \<open>verifyClaim\<close>
  declares no \<open>user\<close> (the variable of that name is local to \<open>scanFraud\<close>) and the module
  has none: evaluating the identifier raises a ReferenceError, after the Rejected entry
  was appended and saved.
\<close>

definition branchOnScore :: "time \<Rightarrow> nat \<Rightarrow> int \<Rightarrow> claim \<Rightarrow> db
    \<Rightarrow> (error + verify_result) \<times> claim \<times> db" where
  "branchOnScore now rnd fraudScore c d =
     (case calculatePayout c d of
        Inl e \<Rightarrow> (Inl e, c, d)
      | Inr (payout, c1) \<Rightarrow>
          if 75 < fraudScore then
            let c2 = updateStatus Approved None (Text [])
                       (ClaimApproved (js_round payout) (now + 7 * day_ms)) now c1;
                (txn, c3, d') = processPayout now rnd payout c2 d
            in (Inr \<lparr>result_status = Paid, result_reason = None, result_payout = Some payout,
                      result_needsManual = None, result_fraudScore = Some fraudScore\<rparr>, c3, d')
          else if 50 \<le> fraudScore then
            (Inr \<lparr>result_status = Under_Review, result_reason = None, result_payout = None,
                   result_needsManual = Some True, result_fraudScore = Some fraudScore\<rparr>,
             updateStatus Manual_Review None (Text []) reviewMessage now c1, d)
          else
            (Inl (ReferenceError ''user is not defined''),
             updateStatus Rejected None rejectMessage rejectMessage now c1, d))"

definition verifyClaim :: "time \<Rightarrow> nat \<Rightarrow> claim \<Rightarrow> db \<Rightarrow> (error + verify_result) \<times> claim \<times> db" where
  "verifyClaim now rnd c d =
     (case autoPullData c d of
        Inl e \<Rightarrow> (Inl e, c, d)
      | Inr (pulled, c1) \<Rightarrow>
          if (case revenueDropPercent (evaluation c1) of None \<Rightarrow> False | Some p \<Rightarrow> p < 70)
             \<or> lostDays (evaluation c1) < 3
          then (Inr (rejected noQualifyingLoss),
                updateStatus Rejected None noQualifyingLoss noQualifyingLoss now c1, d)
          else
            let c2 = c1\<lparr>evaluation := (evaluation c1)
                         \<lparr>coveredReason := typeMap (incidentType (claimDetails c1))\<rparr>\<rparr>
            in if enforceCoverage c2 = ''reject''
               then (let m = NotCoveredDetected (coveredReason (evaluation c2))
                     in (Inr (rejected m), updateStatus Rejected None m m now c2, d))
               else
                 let dup = isDuplicate now c2 d;
                     c3 = c2\<lparr>evaluation := (evaluation c2)\<lparr>doubleDipCheck := dup\<rparr>\<rparr>
                 in if dup
                    then (Inr (rejected duplicateMessage),
                          updateStatus Rejected None duplicateMessage duplicateMessage now c3, d)
                    else (case scanFraud now c3 d of
                            Inl e \<Rightarrow> (Inl e, c3, d)
                          | Inr (fraudScore, c4) \<Rightarrow> branchOnScore now rnd fraudScore c4 d))"

text \<open>
  \<open>handleReinstatement\<close>. The guard reads \<open>this.reinstated\<close>, the flag is written to
  \<open>this.evaluation.reinstated\<close>. The repay amount is half of \<open>evaluation.payoutAmount\<close>:
  when no payout is stored it is \<open>NaN\<close>, which is no number of the schema, and a negative
  one is below the minimum, so the \<open>save()\<close> of \<open>updateStatus\<close> raises and nothing is
  stored. Otherwise the claim is saved with the Reinstated entry, and then the user is
  loaded, its standing lowered and the user saved: that \<open>save()\<close> validates the user
  document (\<open>userValidates\<close>), and when it raises the claim keeps its new entry.
\<close>

record reinstatement_result =
  repay :: real
  deadline :: time

definition notEligible :: error where
  "notEligible = Error ''Not eligible for reinstatement or already handled''"

definition handleReinstatement :: "time \<Rightarrow> oid option \<Rightarrow> claim \<Rightarrow> db
    \<Rightarrow> (error + reinstatement_result) \<times> claim \<times> db" where
  "handleReinstatement now reinstatedBy c d =
     (if top_reinstated c \<noteq> Some True
         \<and> list_ex (\<lambda>h. status h = Paid) (statusHistory c)
      then
        (case payoutAmount (evaluation c) of
           None \<Rightarrow> (Inl (ValidationError ''Claim''), c, d)
         | Some p \<Rightarrow>
             if p * 0.50 < 0 then (Inl (ValidationError ''Claim''), c, d)
             else
               let r = p * 0.50;
                   c1 = c\<lparr>evaluation := (evaluation c)
                          \<lparr>reinstated := True, repayAmount := Some r\<rparr>\<rparr>;
                   repayDeadline = now + 30 * day_ms;
                   c2 = updateStatus Reinstated reinstatedBy (Text ''Appeal successful'')
                          (ReinstatedRepay (js_round r) repayDeadline) now c1
               in (case usersById d (userId (claimDetails c)) of
                     None \<Rightarrow>
                       (Inl (TypeError
                          ''Cannot read properties of null (reading insuranceStatus)''),
                        c2, d)
                   | Some u \<Rightarrow>
                       let u1 = u\<lparr>insuranceStatus_fraudScore :=
                                    max 50 (insuranceStatus_fraudScore u - 10)\<rparr>
                       in if userValidates u1
                          then (Inr \<lparr>repay = r, deadline = repayDeadline\<rparr>, c2,
                                d\<lparr>usersById := (usersById d)(userId (claimDetails c) \<mapsto> u1)\<rparr>)
                          else (Inl (ValidationError ''User''), c2, d)))
      else (Inl notEligible, c, d))"

section \<open>Controllers\<close>

datatype response =
  Http nat string
  | ClaimCreated oid status real int

text \<open>
  \<open>submitClaim\<close> (Controllers/ClaimsController.js), for a request whose body passed the
  field validation: the incident type and the appeal status are values of their enums and
  the date parses. \<open>cid\<close> is the identifier of the new document. A new claim has the
  defaults of claimSchema; its history starts with the Submitted entry. Any exception is
  caught and answered with status 500. The stored copy of the claim is taken to be the
  document the method calls leave in memory.
\<close>

definition newEvaluation :: evaluation where
  "newEvaluation =
     \<lparr>revenueDropPercent = None, lostDays = 0, baselineDaily = None,
      verifiedEarningsLoss = None, coveredReason = OTHER_NOT_COVERED,
      monetizationStatus = NONE, strikes = 0, doubleDipCheck = False,
      aiAnalysis_isValid = None, aiAnalysis_confidenceScore = None,
      aiAnalysis_fraudScore = 0, aiAnalysis_reasons = [], manualReview = None,
      payoutAmount = None, payoutDate = None, mPesaTransactionId = None,
      repayAmount = Some 0, reinstated = False\<rparr>"

definition newClaim :: "time \<Rightarrow> oid \<Rightarrow> oid \<Rightarrow> incident_type \<Rightarrow> time \<Rightarrow> appeal_status \<Rightarrow> oid
    \<Rightarrow> claim" where
  "newClaim now cid uid itype idate appeal pid =
     \<lparr>claim_id = cid,
      claimDetails = \<lparr>userId = uid, incidentType = itype, incidentDate = idate,
                       appealStatus = appeal\<rparr>,
      policyId = pid,
      evaluation = newEvaluation,
      statusHistory = [\<lparr>status = Submitted, date = now, updatedBy = None,
                         entry_notes = Text [], inAppMessage = Text []\<rparr>],
      createdAt = now,
      top_incidentType = None, top_incidentDate = None, top_reinstated = None\<rparr>"

definition lastInAppMessage :: "claim \<Rightarrow> message" where
  "lastInAppMessage c =
     (if statusHistory c = [] \<or> inAppMessage (last (statusHistory c)) = Text []
      then Text ''Claim submitted for review.''
      else inAppMessage (last (statusHistory c)))"

definition submitClaim :: "time \<Rightarrow> nat \<Rightarrow> oid \<Rightarrow> oid \<Rightarrow> incident_type \<Rightarrow> time \<Rightarrow> appeal_status
    \<Rightarrow> db \<Rightarrow> response \<times> claim option \<times> db" where
  "submitClaim now rnd cid uid itype idate appeal d =
     (case usersById d uid of
        None \<Rightarrow> (Http 403 ''Unauthorized or user not found'', None, d)
      | Some u \<Rightarrow>
          if role u \<noteq> Creator then (Http 403 ''Unauthorized or user not found'', None, d)
          else if insuranceStatus_status u \<noteq> InsuranceApproved \<or> policyEndDate u < now
          then (Http 400 ''No active insurance policy'', None, d)
          else
            (case (case premium_insuranceId u of None \<Rightarrow> None
                   | Some pid \<Rightarrow> map_option (\<lambda>p. pid) (premiumsById d pid)) of
               None \<Rightarrow> (Http 400 ''No associated premium found'', None, d)
             | Some pid \<Rightarrow>
                 let c0 = newClaim now cid uid itype idate appeal pid;
                     (res, c1, d1) = verifyClaim now rnd c0 d
                 in (case res of
                       Inl e \<Rightarrow> (Http 500 ''Server error submitting claim'', Some c1,
                                 d1\<lparr>claimDocs := claimDocs d1 @ [c1]\<rparr>)
                     | Inr r \<Rightarrow>
                         let paid = js_or_opt (result_payout r) 0;
                             d2 = pushClaimHistory uid
                                    \<lparr>entry_claimId = cid,
                                     entry_status = ClaimStatus (result_status r),
                                     dateSubmitted = createdAt c1,
                                     entry_payoutAmount = paid\<rparr> d1;
                             d3 = d2\<lparr>outbox := outbox d2 @
                                    [ClaimStatusMail (email u) (result_status r)
                                       (lastInAppMessage c1) paid],
                                    claimDocs := claimDocs d2 @ [c1]\<rparr>
                         in (ClaimCreated cid (result_status r) paid
                               (js_or_int (result_fraudScore r) 0),
                             Some c1, d3))))"

text \<open>
  \<open>reviewClaimManual\<close> (Controllers/ClaimsController.js), for an admin request with a
  boolean \<open>isValid\<close> and non-empty notes, on the claim found by its id: the status entry
  first, then the payout. When \<open>calculatePayout\<close> raises, the request is answered with
  status 500 and the stored claim is the one found.
\<close>

definition ownerEmail :: "claim \<Rightarrow> db \<Rightarrow> string option" where
  "ownerEmail c d = map_option email (usersById d (userId (claimDetails c)))"

definition reviewClaimManual :: "time \<Rightarrow> nat \<Rightarrow> oid \<Rightarrow> bool \<Rightarrow> string \<Rightarrow> claim \<Rightarrow> db
    \<Rightarrow> response \<times> claim \<times> db" where
  "reviewClaimManual now rnd adminId isValid nts c d =
     (let c1 = c\<lparr>evaluation := (evaluation c)
                  \<lparr>manualReview := Some \<lparr>reviewerId = adminId, review_notes = nts,
                                          review_isValid = isValid\<rparr>\<rparr>\<rparr>;
          newStatus = (if isValid then Approved else Rejected)
      in (case (if isValid then calculatePayout c1 d else Inr (0, c1)) of
            Inl e \<Rightarrow> (Http 500 ''Server error reviewing claim'', c, d)
          | Inr (payout, c2) \<Rightarrow>
              let c3 = updateStatus newStatus (Some adminId) (Text nts)
                         (if isValid then ApprovedAfterReview payout
                          else Text ''Rejected after review.'') now c2;
                  (c4, d1) = (if isValid then snd (processPayout now rnd payout c3 d)
                              else (c3, d))
              in (case ownerEmail c d1 of
                    None \<Rightarrow> (Http 500 ''Server error reviewing claim'', c4, d1)
                  | Some addr \<Rightarrow>
                      (Http 200 (if isValid then ''Claim approved'' else ''Claim rejected''),
                       c4,
                       d1\<lparr>outbox := outbox d1 @ [ClaimReviewedMail addr newStatus nts]\<rparr>))))"

text \<open>
  The body of the loop of \<open>bulkReviewClaims\<close> (Controllers/AdminClaimsController.js, in
  src/unnamed/part_007) for
  one review \<open>{claimId, isValid, notes}\<close> whose claim was found: for a valid claim the
  payout is calculated and processed first, and the status entry is appended after it.
  An exception is caught for the one review and reported in its result.
\<close>

datatype review_outcome = ReviewFailed string | ReviewRaised error | ReviewDone status real

definition bulkReviewItem :: "time \<Rightarrow> nat \<Rightarrow> oid \<Rightarrow> bool \<Rightarrow> string \<Rightarrow> claim \<Rightarrow> db
    \<Rightarrow> review_outcome \<times> claim \<times> db" where
  "bulkReviewItem now rnd adminId isValid nts c d =
     (if currentStatus c = Some Under_Review \<or> currentStatus c = Some Manual_Review then
        let c1 = c\<lparr>evaluation := (evaluation c)
                    \<lparr>manualReview := Some \<lparr>reviewerId = adminId, review_notes = nts,
                                            review_isValid = isValid\<rparr>\<rparr>\<rparr>;
            newStatus = (if isValid then Approved else Rejected)
        in (case (if isValid
                  then (case calculatePayout c1 d of
                          Inl e \<Rightarrow> Inl e
                        | Inr (amt, c2) \<Rightarrow>
                            Inr (amt, snd (processPayout now rnd amt c2 d)))
                  else Inr (0, c1, d)) of
              Inl e \<Rightarrow> (ReviewRaised e, c, d)
            | Inr (payout, c3, d1) \<Rightarrow>
                let c4 = updateStatus newStatus (Some adminId) (Text nts)
                           (if isValid then ApprovedAfterReviewRounded (js_round payout)
                            else Text ''Rejected after review.'') now c3
                in (case ownerEmail c d1 of
                      None \<Rightarrow>
                        (ReviewFailed ''Cannot read properties of null (reading personalInfo)'',
                         c4, d1)
                    | Some addr \<Rightarrow>
                        (ReviewDone newStatus (if isValid then payout else 0), c4,
                         d1\<lparr>outbox := outbox d1 @ [ClaimReviewedMail addr newStatus nts]\<rparr>)))
      else (ReviewFailed ''Claim not eligible for manual review'', c, d))"

text \<open>
  \<open>reinstateClaim\<close> (Controllers/ClaimsController.js), for an admin request on the claim
  found by its id. An exception of \<open>handleReinstatement\<close> is answered with status 500;
  the claim is then stored as \<open>handleReinstatement\<close> left it.
\<close>

definition reinstateClaim :: "time \<Rightarrow> oid \<Rightarrow> claim \<Rightarrow> db \<Rightarrow> response \<times> claim \<times> db" where
  "reinstateClaim now adminId c d =
     (case currentStatus c of
        None \<Rightarrow> (Http 500 ''Server error reinstating claim'', c, d)
      | Some s \<Rightarrow>
          if s \<noteq> Paid then (Http 400 ''Claim must be paid before reinstatement'', c, d)
          else
            (case handleReinstatement now (Some adminId) c d of
               (Inl e, c1, d1) \<Rightarrow> (Http 500 ''Server error reinstating claim'', c1, d1)
             | (Inr r, c1, d1) \<Rightarrow>
                 (case ownerEmail c d1 of
                    None \<Rightarrow> (Http 500 ''Server error reinstating claim'', c1, d1)
                  | Some addr \<Rightarrow>
                      (Http 200 ''Claim reinstated; repayment triggered'', c1,
                       d1\<lparr>outbox := outbox d1 @
                            [ClaimReinstatedMail addr (repayAmount (evaluation c1))]\<rparr>))))"

section \<open>Premium methods (Models/Premium.js)\<close>

definition clampPercentage :: "real \<Rightarrow> real" where
  "clampPercentage x = max (min x 5) 2"

definition clampAmount :: "real \<Rightarrow> real" where
  "clampAmount x = max (min x 5000) 1000"

definition checkContentReviewDiscount :: "premium \<Rightarrow> db \<Rightarrow> error + (bool \<times> premium)" where
  "checkContentReviewDiscount p d =
     (case usersById d (premium_userId p) of
        None \<Rightarrow> Inl (TypeError ''Cannot read properties of null (reading insuranceStatus)'')
      | Some u \<Rightarrow>
          let fraudRate = (if 90 < insuranceStatus_fraudScore u then 0.5 else 1.5 :: real);
              discountPct = (if fraudRate < 1 then 10 else 0 :: real);
              p1 = (if fraudRate < 1
                    then p\<lparr>discount_percentage := discountPct,
                           discount_reason := ''Low fraud + preventive AI discount'',
                           preventiveServiceDiscount := 5\<rparr>
                    else p);
              earnings = js_or (monthlyEarnings u) 0;
              adjustedPercentage = clampPercentage (basePercentage p1 - discountPct / 100)
          in Inr (fraudRate < 1,
                  p1\<lparr>finalPercentage := adjustedPercentage,
                      finalAmount := clampAmount (adjustedPercentage / 100 * earnings)\<rparr>))"

definition recalculatePremium :: "time \<Rightarrow> oid option \<Rightarrow> premium \<Rightarrow> db
    \<Rightarrow> error + ((real \<times> real) \<times> premium)" where
  "recalculatePremium now adminId p d =
     (case checkContentReviewDiscount p d of
        Inl e \<Rightarrow> Inl e
      | Inr (applied, p1) \<Rightarrow>
          (case usersById d (premium_userId p1) of
             None \<Rightarrow> Inl (TypeError ''Cannot read properties of null (reading financialInfo)'')
           | Some u \<Rightarrow>
               let earnings = js_or (monthlyEarnings u) 0;
                   p2 = p1\<lparr>finalAmount := clampAmount (finalPercentage p1 / 100 * earnings)\<rparr>;
                   p3 = p2\<lparr>calculations := calculations p2 @
                            [\<lparr>calc_date = now, calc_basePercentage = basePercentage p2,
                              calc_discount_percentage = discount_percentage p2,
                              calc_finalPercentage = finalPercentage p2,
                              calc_finalAmount = finalAmount p2,
                              calculatedBy = adminId\<rparr>],
                           dueDate := now + 30 * day_ms\<rparr>
               in Inr ((finalPercentage p3, finalAmount p3), p3)))"

definition adjustPremium :: "time \<Rightarrow> real \<Rightarrow> string \<Rightarrow> oid \<Rightarrow> premium \<Rightarrow> db
    \<Rightarrow> error + (real \<times> premium)" where
  "adjustPremium now adjustmentPercentage reason adminId p d =
     (case usersById d (premium_userId p) of
        None \<Rightarrow> Inl (TypeError ''Cannot read properties of null (reading financialInfo)'')
      | Some u \<Rightarrow>
          let earnings = js_or (monthlyEarnings u) 0;
              amt = clampAmount (finalAmount p * (1 + adjustmentPercentage / 100));
              pct = clampPercentage (if 0 < earnings then amt / earnings * 100
                                     else finalPercentage p);
              entry = \<lparr>adj_percentage = adjustmentPercentage, adj_reason = reason,
                       adjustedBy = adminId, adjustedAt = now,
                       newFinalAmount = amt, newFinalPercentage = pct\<rparr>
          in Inr (amt, p\<lparr>finalAmount := amt, finalPercentage := pct,
                          manualAdjustment := Some entry,
                          adjustmentHistory := adjustmentHistory p @ [entry]\<rparr>))"

section \<open>Scenario data\<close>

text \<open>
  Concrete documents for the scenarios of the specification (section 8). Dates are whole
  days: day 1100 is the incident day of scenario A, the operations run on day 1105. The
  creator earned 1000 a day on the seven days before the incident and 100 a day on the
  five days from the incident on. The user is a document of the User model: it has no
  \<open>platformInfo.youtube.videos\<close> and no \<open>publishedAt\<close> of the channel. Its payment name
  equals the registered name, and its fraud standing is 80.
\<close>

definition onDay :: "int \<Rightarrow> real \<Rightarrow> earnings_entry" where
  "onDay n a = \<lparr>earned_on = n * day_ms, amount = a\<rparr>"

definition scenarioAnalytics :: analytics where
  "scenarioAnalytics =
     \<lparr>avgDailyRevenue90d = 1000,
      earningsHistory =
        [onDay 1093 1000, onDay 1094 1000, onDay 1095 1000, onDay 1096 1000,
         onDay 1097 1000, onDay 1098 1000, onDay 1099 1000,
         onDay 1100 100, onDay 1101 100, onDay 1102 100, onDay 1103 100, onDay 1104 100]\<rparr>"

definition scenarioUser :: user where
  "scenarioUser =
     \<lparr>fullName = ''Amina W'', email = ''amina@example.com'', role = Creator,
      youtube_videos = None, channel_publishedAt = None, mobileNumber = ''Amina W'',
      monthlyEarnings = 130000, premium_insuranceId = Some 7, claimHistory = [],
      insuranceStatus_status = InsuranceApproved, policyEndDate = 1400 * day_ms,
      insuranceStatus_fraudScore = 80\<rparr>"

definition scenarioPremium :: premium where
  "scenarioPremium =
     \<lparr>premium_userId = 1, basePercentage = 2, discount_percentage = 0,
      discount_reason = [], preventiveServiceDiscount = 0, finalPercentage = 2,
      finalAmount = 2600, monthlyCap = 65000, manualAdjustment = None,
      adjustmentHistory = [], calculations = [], dueDate = 1130 * day_ms\<rparr>"

definition scenarioDb :: db where
  "scenarioDb =
     \<lparr>analyticsByUser = [1 \<mapsto> scenarioAnalytics],
      usersById = [1 \<mapsto> scenarioUser],
      premiumsById = [7 \<mapsto> scenarioPremium],
      claimDocs = [], outbox = [], strictQuery = False\<rparr>"

definition scenarioNow :: time where
  "scenarioNow = 1105 * day_ms"

definition scenarioClaim :: claim where
  "scenarioClaim = newClaim scenarioNow 10 1 Limited_ads (1100 * day_ms) Not_started 7"

text \<open>
  A stored claim of that user for the incident of day 1100, approved and paid 3500, and a
  database that holds it together with the entry that \<open>processPayout\<close> pushed to the
  user's claim history; and the same database with a claim history inside the enum of
  the User schema.
\<close>

definition paidClaim :: claim where
  "paidClaim =
     scenarioClaim
       \<lparr>evaluation :=
          \<lparr>revenueDropPercent = Some 90, lostDays = 5, baselineDaily = Some 1000,
           verifiedEarningsLoss = Some 3500, coveredReason = AD_SUITS,
           monetizationStatus = LIMITED, strikes = 0, doubleDipCheck = False,
           aiAnalysis_isValid = Some True, aiAnalysis_confidenceScore = Some 90,
           aiAnalysis_fraudScore = 100, aiAnalysis_reasons = [], manualReview = None,
           payoutAmount = Some 3500, payoutDate = Some (scenarioNow + 7 * day_ms),
           mPesaTransactionId = Some (scenarioNow, 0), repayAmount = Some 0,
           reinstated = False\<rparr>,
        statusHistory :=
          [\<lparr>status = Submitted, date = scenarioNow, updatedBy = None,
            entry_notes = Text [], inAppMessage = Text []\<rparr>,
           \<lparr>status = Approved, date = scenarioNow, updatedBy = None,
            entry_notes = Text [],
            inAppMessage = ClaimApproved 3500 (scenarioNow + 7 * day_ms)\<rparr>,
           \<lparr>status = Paid, date = scenarioNow, updatedBy = None,
            entry_notes = Text [], inAppMessage = Text []\<rparr>]\<rparr>"

definition paidDb :: db where
  "paidDb =
     scenarioDb
       \<lparr>usersById :=
          [1 \<mapsto> scenarioUser
             \<lparr>claimHistory :=
                [\<lparr>entry_claimId = 10, entry_status = ClaimStatus Paid,
                  dateSubmitted = scenarioNow, entry_payoutAmount = 3500\<rparr>]\<rparr>],
        claimDocs := [paidClaim]\<rparr>"

definition settledDb :: db where
  "settledDb =
     scenarioDb
       \<lparr>usersById :=
          [1 \<mapsto> scenarioUser
             \<lparr>claimHistory :=
                [\<lparr>entry_claimId = 10, entry_status = ClaimStatus Approved,
                  dateSubmitted = scenarioNow, entry_payoutAmount = 3500\<rparr>]\<rparr>],
        claimDocs := [paidClaim]\<rparr>"

text \<open>
  Scenario B: a second claim of the same user, for an incident twelve hours after the one
  of the stored, paid claim. It is verified on day 1105, five days after the incidents,
  or on day 1140, forty days after them.
\<close>

definition laterClaim :: claim where
  "laterClaim =
     newClaim scenarioNow 11 1 Limited_ads (1100 * day_ms + 12 * 60 * 60 * 1000)
       Not_started 7"

definition lateNow :: time where
  "lateNow = 1140 * day_ms"

text \<open>
  Scenario D: the revenue of scenario A, claimed with a rejected appeal by a user whose
  payment name differs from the registered name.
\<close>

definition bandUser :: user where
  "bandUser = scenarioUser\<lparr>channel_publishedAt := None, mobileNumber := ''+254700000000''\<rparr>"

definition bandDb :: db where
  "bandDb = scenarioDb\<lparr>usersById := [1 \<mapsto> bandUser]\<rparr>"

definition bandClaim :: claim where
  "bandClaim = newClaim scenarioNow 13 1 Limited_ads (1100 * day_ms) Appeal_Rejected 7"

text \<open>A stored claim of that user, held for manual review with a fraud score of 75.\<close>

definition heldClaim :: claim where
  "heldClaim =
     bandClaim
       \<lparr>evaluation :=
          \<lparr>revenueDropPercent = Some 90, lostDays = 5, baselineDaily = Some 1000,
           verifiedEarningsLoss = Some 3500, coveredReason = AD_SUITS,
           monetizationStatus = LIMITED, strikes = 0, doubleDipCheck = False,
           aiAnalysis_isValid = Some False, aiAnalysis_confidenceScore = Some 90,
           aiAnalysis_fraudScore = 75,
           aiAnalysis_reasons =
             [(''appealRejected'', 10), (''newChannel'', 10), (''nameMismatch'', 5)],
           manualReview = None, payoutAmount = Some 3500, payoutDate = None,
           mPesaTransactionId = None, repayAmount = Some 0, reinstated = False\<rparr>,
        statusHistory :=
          [\<lparr>status = Submitted, date = scenarioNow, updatedBy = None,
            entry_notes = Text [], inAppMessage = Text []\<rparr>,
           \<lparr>status = Manual_Review, date = scenarioNow, updatedBy = None,
            entry_notes = Text [], inAppMessage = reviewMessage\<rparr>]\<rparr>"



text \<open>
  Revenue that stays at 1000 a day after the incident; a user without an analytics
  document; an analytics document without any revenue; and an analytics document with a
  90-day average of 1000 and no daily entries.
\<close>

definition steadyDb :: db where
  "steadyDb =
     scenarioDb\<lparr>analyticsByUser :=
       [1 \<mapsto> \<lparr>avgDailyRevenue90d = 1000,
                earningsHistory =
                  [onDay 1098 1000, onDay 1099 1000, onDay 1100 1000, onDay 1101 1000,
                   onDay 1102 1000]\<rparr>]\<rparr>"




section \<open>Properties\<close>

definition withinRange :: "premium \<Rightarrow> bool" where
  "withinRange p \<longleftrightarrow> 2 \<le> finalPercentage p \<and> finalPercentage p \<le> 5
     \<and> 1000 \<le> finalAmount p \<and> finalAmount p \<le> 5000"

text \<open>What a caller sees of a verification: the error, or the status and payout returned.\<close>

definition outcome :: "(error + verify_result) \<times> claim \<times> db
    \<Rightarrow> error + (status \<times> real option \<times> int option)" where
  "outcome x = map_sum id (\<lambda>r. (result_status r, result_payout r, result_fraudScore r))
                 (fst x)"

definition statuses :: "claim \<Rightarrow> status list" where
  "statuses c = map status (statusHistory c)"

text \<open>
  What is left after a verification: the outcome, the statuses of the claim's history, the
  fraud score stored on the claim, and the fraud standing of user \<open>uid\<close>.
\<close>

definition observed :: "oid \<Rightarrow> (error + verify_result) \<times> claim \<times> db
    \<Rightarrow> (error + (status \<times> real option \<times> int option)) \<times> status list \<times> int \<times> real option" where
  "observed uid x =
     (outcome x, statuses (fst (snd x)), aiAnalysis_fraudScore (evaluation (fst (snd x))),
      map_option insuranceStatus_fraudScore (usersById (snd (snd x)) uid))"

text \<open>
  What is left after a reinstatement: the repay amount returned (or the error), the
  statuses, the claim's \<open>evaluation.reinstated\<close> flag and the standing of user \<open>uid\<close>;
  and a second call of \<open>handleReinstatement\<close> on the claim and database a first call left.
\<close>

definition reinstatementObserved :: "oid \<Rightarrow> (error + reinstatement_result) \<times> claim \<times> db
    \<Rightarrow> (error + real) \<times> status list \<times> bool \<times> real option" where
  "reinstatementObserved uid x =
     (map_sum id repay (fst x), statuses (fst (snd x)), reinstated (evaluation (fst (snd x))),
      map_option insuranceStatus_fraudScore (usersById (snd (snd x)) uid))"

text \<open>
  What is left after a submission: the answer, the statuses of the claim created, and the
  claim history of user \<open>uid\<close> and the mails sent.
\<close>

definition submitted :: "oid \<Rightarrow> response \<times> claim option \<times> db
    \<Rightarrow> response \<times> status list option \<times> claim_history_entry list option \<times> mail list" where
  "submitted uid x =
     (fst x, map_option statuses (fst (snd x)),
      map_option claimHistory (usersById (snd (snd x)) uid), outbox (snd (snd x)))"

definition reinstateAgain :: "time \<Rightarrow> oid option \<Rightarrow> (error + reinstatement_result) \<times> claim \<times> db
    \<Rightarrow> (error + reinstatement_result) \<times> claim \<times> db" where
  "reinstateAgain now reinstatedBy x =
     handleReinstatement now reinstatedBy (fst (snd x)) (snd (snd x))"

text \<open>
  The duplicate guard as the specification words it (section 4.3): some other claim of the
  same user that reached Approved or Paid has its incident date within the trailing 30
  days and within 24 hours of the incident date of the claim.
\<close>

definition claimedDuplicate :: "time \<Rightarrow> claim \<Rightarrow> db \<Rightarrow> bool" where
  "claimedDuplicate now c d =
     list_ex (\<lambda>x. userId (claimDetails x) = userId (claimDetails c)
                \<and> now - 30 * day_ms \<le> incidentDate (claimDetails x)
                \<and> list_ex (\<lambda>h. status h = Approved \<or> status h = Paid) (statusHistory x)
                \<and> claim_id x \<noteq> claim_id c
                \<and> \<bar>incidentDate (claimDetails x) - incidentDate (claimDetails c)\<bar> < day_ms)
       (claimDocs d)"

text \<open>
  The same without the 30 days: some other claim of the same user that reached Approved or
  Paid has its incident date within 24 hours of the incident date of the claim.
\<close>

definition settledWithinDay :: "claim \<Rightarrow> db \<Rightarrow> bool" where
  "settledWithinDay c d =
     list_ex (\<lambda>x. userId (claimDetails x) = userId (claimDetails c)
                \<and> list_ex (\<lambda>h. status h = Approved \<or> status h = Paid) (statusHistory x)
                \<and> claim_id x \<noteq> claim_id c
                \<and> \<bar>incidentDate (claimDetails x) - incidentDate (claimDetails c)\<bar> < day_ms)
       (claimDocs d)"

text \<open>
  A claim passes the drop, coverage and duplicate checks of \<open>verifyClaim\<close>: the data are
  pulled, none of the three conditions that end in a rejection holds, and verification
  goes on to the fraud scan.
\<close>

definition passesChecks :: "time \<Rightarrow> claim \<Rightarrow> db \<Rightarrow> bool" where
  "passesChecks now c d =
     (case autoPullData c d of
        Inl e \<Rightarrow> False
      | Inr (pulled, c1) \<Rightarrow>
          (case revenueDropPercent (evaluation c1) of None \<Rightarrow> True | Some p \<Rightarrow> 70 \<le> p)
          \<and> 3 \<le> lostDays (evaluation c1)
          \<and> enforceCoverage (c1\<lparr>evaluation := (evaluation c1)
                 \<lparr>coveredReason := typeMap (incidentType (claimDetails c1))\<rparr>\<rparr>) = ''approve''
          \<and> \<not> isDuplicate now
                 (c1\<lparr>evaluation := (evaluation c1)
                    \<lparr>coveredReason := typeMap (incidentType (claimDetails c1))\<rparr>\<rparr>) d)"

section \<open>Supporting lemmas\<close>

lemma updateStatus_statuses [simp]:
  "statuses (updateStatus s b n m now c) = statuses c @ [s]"
  by (simp add: updateStatus_def statuses_def)

lemma updateStatus_frame [simp]:
  "evaluation (updateStatus s b n m now c) = evaluation c"
  "claimDetails (updateStatus s b n m now c) = claimDetails c"
  "claim_id (updateStatus s b n m now c) = claim_id c"
  "createdAt (updateStatus s b n m now c) = createdAt c"
  "top_reinstated (updateStatus s b n m now c) = top_reinstated c"
  by (simp_all add: updateStatus_def)

lemma updateStatus_last [simp]:
  "currentStatus (updateStatus s b n m now c) = Some s"
  "lastInAppMessage (updateStatus s b n m now c)
     = (if m = Text [] then Text ''Claim submitted for review.'' else m)"
  by (simp_all add: updateStatus_def currentStatus_def lastInAppMessage_def)

lemma statuses_evaluation_update [simp]:
  "statuses (c\<lparr>evaluation := e\<rparr>) = statuses c"
  by (simp add: statuses_def)

lemma newClaim_frame [simp]:
  "userId (claimDetails (newClaim now cid uid t i a p)) = uid"
  "claim_id (newClaim now cid uid t i a p) = cid"
  "createdAt (newClaim now cid uid t i a p) = now"
  "statuses (newClaim now cid uid t i a p) = [Submitted]"
  by (simp_all add: newClaim_def statuses_def)


lemma autoPullData_found:
  assumes "analyticsByUser d (userId (claimDetails c)) = Some a"
  shows "\<exists>r c'. autoPullData c d = Inr (r, c')
     \<and> pulled_baselineAvg r
         = avg_or (preIncident a (incidentDate (claimDetails c))) (avgDailyRevenue90d a)
     \<and> pulled_lostDays r
         = length (filter (\<lambda>h. amount h < pulled_baselineAvg r * 0.3)
             (postIncident a (incidentDate (claimDetails c))))
     \<and> revenueDropPercent (evaluation c') = Some (pulled_drop r)
     \<and> baselineDaily (evaluation c') = Some (pulled_baselineAvg r)
     \<and> lostDays (evaluation c') = max 3 (pulled_lostDays r)"
  using assms by (simp add: autoPullData_def Let_def)

lemma autoPullData_frame:
  assumes "autoPullData c d = Inr (r, c1)"
  shows "statuses c1 = statuses c \<and> createdAt c1 = createdAt c \<and> claim_id c1 = claim_id c
     \<and> claimDetails c1 = claimDetails c \<and> top_reinstated c1 = top_reinstated c
     \<and> aiAnalysis_fraudScore (evaluation c1) = aiAnalysis_fraudScore (evaluation c)
     \<and> payoutAmount (evaluation c1) = payoutAmount (evaluation c)
     \<and> 3 \<le> lostDays (evaluation c1) \<and> strikes (evaluation c1) = 0"
  using assms
  by (auto simp: autoPullData_def Let_def statuses_def split: option.splits)





lemma scanFraud_frame:
  assumes "scanFraud now c d = Inr (s, c1)"
  shows "statuses c1 = statuses c \<and> createdAt c1 = createdAt c \<and> claim_id c1 = claim_id c
     \<and> claimDetails c1 = claimDetails c \<and> top_reinstated c1 = top_reinstated c
     \<and> aiAnalysis_fraudScore (evaluation c1) = s"
  using assms
  by (auto simp: scanFraud_def Let_def statuses_def split: option.splits)

text \<open>
  On a user document of the User model the fraud scan raises, whatever the claim, the
  revenue and the time are.
\<close>

lemma scanFraud_loaded:
  assumes "ownerLoaded c d"
  shows "scanFraud now c d
     = Inl (TypeError (if usersById d (userId (claimDetails c)) = None
                       then ''Cannot read properties of null (reading platformInfo)''
                       else ''Cannot read properties of undefined (reading length)''))"
  using assms
  by (simp add: scanFraud_def ownerLoaded_def userLoaded_def loadedUser_def
      split: option.splits)

lemma calculatePayout_frame:
  assumes "calculatePayout c d = Inr (p, c1)"
  shows "statuses c1 = statuses c \<and> createdAt c1 = createdAt c \<and> claim_id c1 = claim_id c
     \<and> claimDetails c1 = claimDetails c \<and> top_reinstated c1 = top_reinstated c
     \<and> payoutAmount (evaluation c1) = Some p \<and> 0 \<le> p"
  using assms
  by (auto simp: calculatePayout_def Let_def statuses_def split: if_splits)

lemma processPayout_statuses [simp]:
  "statuses (fst (snd (processPayout now rnd a c d))) = statuses c @ [Paid]"
  by (simp add: processPayout_def Let_def statuses_def updateStatus_def)

lemma pushClaimHistory_frame [simp]:
  "outbox (pushClaimHistory uid e d) = outbox d"
  "claimDocs (pushClaimHistory uid e d) = claimDocs d"
  by (simp_all add: pushClaimHistory_def split: option.splits)

lemma pushClaimHistory_standing [simp]:
  "map_option insuranceStatus_fraudScore (usersById (pushClaimHistory k e d) uid)
     = map_option insuranceStatus_fraudScore (usersById d uid)"
  by (simp add: pushClaimHistory_def split: option.splits)

text \<open>
  The three branches of step 5, as the source writes them, for a score that the scan
  would return.
\<close>

lemma branchOnScore_manual:
  assumes "calculatePayout c d = Inr (p, c1)" and "50 \<le> s" and "s \<le> 75"
  shows "branchOnScore now rnd s c d
     = (Inr \<lparr>result_status = Under_Review, result_reason = None, result_payout = None,
              result_needsManual = Some True, result_fraudScore = Some s\<rparr>,
        updateStatus Manual_Review None (Text []) reviewMessage now c1, d)"
  using assms by (simp add: branchOnScore_def)

lemma branchOnScore_low:
  assumes "calculatePayout c d = Inr (p, c1)" and "s < 50"
  shows "branchOnScore now rnd s c d
     = (Inl (ReferenceError ''user is not defined''),
        updateStatus Rejected None rejectMessage rejectMessage now c1, d)"
  using assms by (simp add: branchOnScore_def)

lemma branchOnScore_high:
  assumes "calculatePayout c d = Inr (p, c1)" and "75 < s"
  shows "outcome (branchOnScore now rnd s c d) = Inr (Paid, Some p, Some s)
     \<and> statuses (fst (snd (branchOnScore now rnd s c d))) = statuses c @ [Approved, Paid]"
  using assms calculatePayout_frame [OF assms(1)]
  by (simp add: branchOnScore_def Let_def split_def outcome_def)

lemma branchOnScore_standing:
  assumes "branchOnScore now rnd s c d = (res, c', d')"
  shows "map_option insuranceStatus_fraudScore (usersById d' uid)
     = map_option insuranceStatus_fraudScore (usersById d uid)"
  using assms
  by (auto simp: branchOnScore_def Let_def split_def processPayout_def
      split: if_splits sum.splits)

text \<open>
  No path of \<open>verifyClaim\<close> changes the fraud standing of any user: the database it
  returns is the one it was given, or that one with a claim-history entry pushed.
\<close>

lemma verifyClaim_standing:
  assumes "verifyClaim now rnd c d = (res, c', d')"
  shows "map_option insuranceStatus_fraudScore (usersById d' uid)
     = map_option insuranceStatus_fraudScore (usersById d uid)"
proof (cases "autoPullData c d")
  case (Inl e)
  with assms show ?thesis by (simp add: verifyClaim_def)
next
  case (Inr x)
  obtain p c1 where x: "x = (p, c1)" by (cases x)
  define c2 where "c2 = c1\<lparr>evaluation := (evaluation c1)
                         \<lparr>coveredReason := typeMap (incidentType (claimDetails c1))\<rparr>\<rparr>"
  define c3 where "c3 = c2\<lparr>evaluation := (evaluation c2)
                         \<lparr>doubleDipCheck := isDuplicate now c2 d\<rparr>\<rparr>"
  have "d' = d \<or> (\<exists>f c4. branchOnScore now rnd f c4 d = (res, c', d'))"
    using assms Inr x
    by (auto simp: verifyClaim_def Let_def c2_def c3_def split: if_splits sum.splits)
  then show ?thesis using branchOnScore_standing by blast
qed


lemma claimedDuplicate_settled:
  "claimedDuplicate now c d \<Longrightarrow> settledWithinDay c d"
  by (auto simp: claimedDuplicate_def settledWithinDay_def list_ex_iff)



text \<open>
  Manual review appends Approved and then Paid; the bulk review appends Paid and then
  Approved.
\<close>

lemma reviewClaimManual_valid_statuses:
  assumes "calculatePayout
             (c\<lparr>evaluation := (evaluation c)
                  \<lparr>manualReview := Some \<lparr>reviewerId = a, review_notes = n,
                                          review_isValid = True\<rparr>\<rparr>\<rparr>) d = Inr (p, c1)"
  shows "statuses (fst (snd (reviewClaimManual now rnd a True n c d)))
     = statuses c @ [Approved, Paid]"
  using assms calculatePayout_frame [OF assms]
  by (simp add: reviewClaimManual_def Let_def split_def split: option.splits)

lemma bulkReviewItem_valid_statuses:
  assumes "currentStatus c = Some Under_Review \<or> currentStatus c = Some Manual_Review"
    and "calculatePayout
             (c\<lparr>evaluation := (evaluation c)
                  \<lparr>manualReview := Some \<lparr>reviewerId = a, review_notes = n,
                                          review_isValid = True\<rparr>\<rparr>\<rparr>) d = Inr (p, c1)"
  shows "statuses (fst (snd (bulkReviewItem now rnd a True n c d)))
     = statuses c @ [Paid, Approved]"
  using assms calculatePayout_frame [OF assms(2)]
  by (simp add: bulkReviewItem_def Let_def split_def split: option.splits)

text \<open>
  \<open>handleReinstatement\<close> on a claim without a top-level \<open>reinstated\<close> that has a Paid
  entry and a stored payout: whatever \<open>evaluation.reinstated\<close> holds, the guard passes
  and the Reinstated entry is appended; the call returns when the user validates and
  raises otherwise.
\<close>

lemma handleReinstatement_eligible:
  assumes "top_reinstated c = None"
    and "list_ex (\<lambda>h. status h = Paid) (statusHistory c)"
    and "payoutAmount (evaluation c) = Some p" and "0 \<le> p"
  shows "handleReinstatement now by c d =
     (let c2 = updateStatus Reinstated by (Text ''Appeal successful'')
                 (ReinstatedRepay (js_round (p / 2)) (now + 30 * day_ms)) now
                 (c\<lparr>evaluation := (evaluation c)
                      \<lparr>reinstated := True, repayAmount := Some (p / 2)\<rparr>\<rparr>)
      in (case usersById d (userId (claimDetails c)) of
            None \<Rightarrow>
              (Inl (TypeError ''Cannot read properties of null (reading insuranceStatus)''),
               c2, d)
          | Some u \<Rightarrow>
              if userValidates
                   (u\<lparr>insuranceStatus_fraudScore := max 50 (insuranceStatus_fraudScore u - 10)\<rparr>)
              then (Inr \<lparr>repay = p / 2, deadline = now + 30 * day_ms\<rparr>, c2,
                    d\<lparr>usersById := (usersById d)(userId (claimDetails c) \<mapsto>
                         u\<lparr>insuranceStatus_fraudScore :=
                              max 50 (insuranceStatus_fraudScore u - 10)\<rparr>)\<rparr>)
              else (Inl (ValidationError ''User''), c2, d)))"
  using assms by (simp add: handleReinstatement_def Let_def not_less split: option.splits)

text \<open>
  The mismatch signal of the fraud scan, as the source computes it: for a claim without a
  top-level \<open>incidentType\<close> it is among the positive flags exactly when the category is
  COPYRIGHT, whatever incident type was reported.
\<close>

lemma mismatch_flag_ignores_reported_type:
  assumes "top_incidentType c = None"
  shows "(''copyrightMismatch'', 25) \<in> set (filter (\<lambda>kv. 0 < snd kv) (fraudFlags now c u vs a))
     \<longleftrightarrow> coveredReason (evaluation c) = COPYRIGHT"
  using assms by (simp add: fraudFlags_def Let_def)

text \<open>
  Every operation only appends to the status history: the history of the claim it leaves
  is the one it was given, followed by new entries.
\<close>

lemma branchOnScore_extends:
  "\<exists>ys. statuses (fst (snd (branchOnScore now rnd s c d))) = statuses c @ ys"
proof (cases "calculatePayout c d")
  case (Inl e)
  then show ?thesis by (simp add: branchOnScore_def)
next
  case (Inr x)
  obtain p c1 where x: "x = (p, c1)" by (cases x)
  from calculatePayout_frame [of c d p c1] Inr x have "statuses c1 = statuses c" by simp
  then show ?thesis
    using Inr x by (simp add: branchOnScore_def Let_def split_def)
qed

lemma verifyClaim_extends:
  assumes "verifyClaim now rnd c d = (res, c', d')"
  shows "\<exists>ys. statuses c' = statuses c @ ys"
proof (cases "autoPullData c d")
  case (Inl e)
  with assms show ?thesis by (auto simp: verifyClaim_def)
next
  case (Inr x)
  obtain p c1 where x: "x = (p, c1)" by (cases x)
  define c2 where "c2 = c1\<lparr>evaluation := (evaluation c1)
                         \<lparr>coveredReason := typeMap (incidentType (claimDetails c1))\<rparr>\<rparr>"
  define c3 where "c3 = c2\<lparr>evaluation := (evaluation c2)
                         \<lparr>doubleDipCheck := isDuplicate now c2 d\<rparr>\<rparr>"
  have s1: "statuses c1 = statuses c"
    using autoPullData_frame Inr x by blast
  have s3: "statuses c2 = statuses c" "statuses c3 = statuses c"
    using s1 by (simp_all add: c2_def c3_def)
  consider (rejected) "statuses c' = statuses c @ [Rejected]"
    | (aborted) "c' = c3"
    | (scored) f c4 where "scanFraud now c3 d = Inr (f, c4)"
        and "branchOnScore now rnd f c4 d = (res, c', d')"
    using assms Inr x s1
    by (auto simp: verifyClaim_def Let_def c2_def c3_def split: if_splits sum.splits)
  then show ?thesis
  proof cases
    case rejected
    then show ?thesis by simp
  next
    case aborted
    then show ?thesis using s3 by simp
  next
    case scored
    from scanFraud_frame [OF scored(1)] s3 have "statuses c4 = statuses c" by simp
    with branchOnScore_extends [of now rnd f c4 d] scored(2) show ?thesis by simp
  qed
qed

lemma reviewClaimManual_extends:
  "\<exists>ys. statuses (fst (snd (reviewClaimManual now rnd a v n c d))) = statuses c @ ys"
proof (cases "v \<and> (\<exists>e. calculatePayout
             (c\<lparr>evaluation := (evaluation c)
                  \<lparr>manualReview := Some \<lparr>reviewerId = a, review_notes = n,
                                          review_isValid = v\<rparr>\<rparr>\<rparr>) d = Inl e)")
  case True
  then show ?thesis by (auto simp: reviewClaimManual_def Let_def)
next
  case False
  show ?thesis
  proof (cases v)
    case True
    with False obtain p c1 where cp: "calculatePayout
             (c\<lparr>evaluation := (evaluation c)
                  \<lparr>manualReview := Some \<lparr>reviewerId = a, review_notes = n,
                                          review_isValid = True\<rparr>\<rparr>\<rparr>) d = Inr (p, c1)"
      by (cases "calculatePayout
             (c\<lparr>evaluation := (evaluation c)
                  \<lparr>manualReview := Some \<lparr>reviewerId = a, review_notes = n,
                                          review_isValid = True\<rparr>\<rparr>\<rparr>) d") auto
    from reviewClaimManual_valid_statuses [OF cp] True show ?thesis by simp
  next
    case False
    then show ?thesis
      by (simp add: reviewClaimManual_def Let_def split_def split: option.splits)
  qed
qed

lemma bulkReviewItem_extends:
  "\<exists>ys. statuses (fst (snd (bulkReviewItem now rnd a v n c d))) = statuses c @ ys"
proof (cases "currentStatus c = Some Under_Review \<or> currentStatus c = Some Manual_Review")
  case False
  then show ?thesis by (simp add: bulkReviewItem_def)
next
  case elig: True
  show ?thesis
  proof (cases v)
    case False
    then show ?thesis
      using elig by (simp add: bulkReviewItem_def Let_def split_def split: option.splits)
  next
    case True
    show ?thesis
    proof (cases "calculatePayout
             (c\<lparr>evaluation := (evaluation c)
                  \<lparr>manualReview := Some \<lparr>reviewerId = a, review_notes = n,
                                          review_isValid = True\<rparr>\<rparr>\<rparr>) d")
      case (Inl e)
      then show ?thesis using elig True by (simp add: bulkReviewItem_def Let_def)
    next
      case (Inr x)
      obtain p c1 where "x = (p, c1)" by (cases x)
      with Inr bulkReviewItem_valid_statuses [OF elig, of a n d p c1] True
      show ?thesis by simp
    qed
  qed
qed

lemma handleReinstatement_extends:
  "\<exists>ys. statuses (fst (snd (handleReinstatement now by c d))) = statuses c @ ys"
  by (simp add: handleReinstatement_def Let_def split: option.splits)

lemma reinstateClaim_extends:
  "\<exists>ys. statuses (fst (snd (reinstateClaim now a c d))) = statuses c @ ys"
proof -
  have "\<exists>ys. statuses (fst (snd (handleReinstatement now (Some a) c d))) = statuses c @ ys"
    by (rule handleReinstatement_extends)
  then show ?thesis
    by (auto simp: reinstateClaim_def split: option.splits sum.splits prod.splits)
qed

text \<open>
  The score that \<open>scanFraud\<close> computes is 100 minus the sum of the stored reasons'
  penalties, floored at 0; it lies between 0 and 100, and the stored reasons are the
  signals with a positive penalty.
\<close>

lemma sum_positive_flags:
  "list_all (\<lambda>kv. 0 \<le> snd kv) xs
   \<Longrightarrow> sum_list (map snd (filter (\<lambda>kv. 0 < snd kv) xs)) = sum_list (map snd (xs :: (string \<times> int) list))"
  by (induction xs) auto

lemma massUploadFlag_range: "0 \<le> massUploadFlag vs \<and> massUploadFlag vs \<le> 15"
  by (simp add: massUploadFlag_def)

lemma fraudFlags_nonneg:
  "list_all (\<lambda>kv. 0 \<le> snd kv) (fraudFlags now c u vs a)"
  using massUploadFlag_range [of vs] by (simp add: fraudFlags_def Let_def)

lemma scanFraud_score:
  assumes "scanFraud now c d = Inr (s, c')"
  shows "s = max 0 (100 - sum_list (map snd (aiAnalysis_reasons (evaluation c'))))
     \<and> 0 \<le> s \<and> s \<le> 100 \<and> aiAnalysis_fraudScore (evaluation c') = s
     \<and> list_all (\<lambda>kv. 0 < snd kv) (aiAnalysis_reasons (evaluation c'))"
proof -
  from assms obtain u vs where
    r: "aiAnalysis_reasons (evaluation c')
       = filter (\<lambda>kv. 0 < snd kv)
           (fraudFlags now c u vs (analyticsByUser d (userId (claimDetails c))))"
    and s: "s = scoreOf (fraudFlags now c u vs (analyticsByUser d (userId (claimDetails c))))"
    and f: "aiAnalysis_fraudScore (evaluation c') = s"
    by (auto simp: scanFraud_def Let_def split: option.splits)
  note n = fraudFlags_nonneg [of now c u vs "analyticsByUser d (userId (claimDetails c))"]
  have "0 \<le> sum_list (map snd (fraudFlags now c u vs (analyticsByUser d (userId (claimDetails c)))))"
    using n by (intro sum_list_nonneg) (auto simp: list_all_iff)
  then show ?thesis
    using r s f sum_positive_flags [OF n] by (simp add: scoreOf_def list_all_iff)
qed

text \<open>
  The controller refuses a reinstatement unless the last status is Paid.
\<close>

lemma reinstateClaim_needs_paid_last:
  assumes "currentStatus c = Some s" and "s \<noteq> Paid"
  shows "reinstateClaim now a c d = (Http 400 ''Claim must be paid before reinstatement'', c, d)"
  using assms by (simp add: reinstateClaim_def)


lemma clampPercentage_range: "2 \<le> clampPercentage x \<and> clampPercentage x \<le> 5"
  by (simp add: clampPercentage_def)

lemma clampAmount_range: "1000 \<le> clampAmount x \<and> clampAmount x \<le> 5000"
  by (simp add: clampAmount_def)

lemma checkContentReviewDiscount_range:
  assumes "usersById d (premium_userId p) = Some u"
  shows "\<exists>b p'. checkContentReviewDiscount p d = Inr (b, p') \<and> withinRange p'
            \<and> premium_userId p' = premium_userId p"
  using assms clampPercentage_range clampAmount_range
  by (simp add: checkContentReviewDiscount_def withinRange_def Let_def)

lemma recalculatePremium_range:
  assumes "usersById d (premium_userId p) = Some u"
  shows "\<exists>r p'. recalculatePremium now calcBy p d = Inr (r, p') \<and> withinRange p'
            \<and> r = (finalPercentage p', finalAmount p')"
proof -
  from checkContentReviewDiscount_range [OF assms]
  obtain b p1 where c: "checkContentReviewDiscount p d = Inr (b, p1)"
    and w: "withinRange p1" and u: "premium_userId p1 = premium_userId p"
    by blast
  show ?thesis
    using c w u assms clampAmount_range
    by (simp add: recalculatePremium_def withinRange_def Let_def)
qed

lemma adjustPremium_range:
  assumes "usersById d (premium_userId p) = Some u"
  shows "\<exists>amt p'. adjustPremium now pct reason adminId p d = Inr (amt, p') \<and> withinRange p'
            \<and> amt = finalAmount p'"
  using assms clampPercentage_range clampAmount_range
  by (simp add: adjustPremium_def withinRange_def Let_def)

text \<open>
  The passing claim on a user document of the User model: a claim that passes the drop,
  coverage and duplicate checks ends in the TypeError of the fraud scan, with nothing
  added to its history, no score stored and no payout calculated.
\<close>

lemma verifyClaim_passing_loaded:
  assumes "passesChecks now c d" and "ownerLoaded c d"
  shows "\<exists>m c'. verifyClaim now rnd c d = (Inl (TypeError m), c', d)
     \<and> statuses c' = statuses c
     \<and> aiAnalysis_fraudScore (evaluation c') = aiAnalysis_fraudScore (evaluation c)
     \<and> payoutAmount (evaluation c') = payoutAmount (evaluation c)"
proof -
  from assms(1) obtain p c1 where a: "autoPullData c d = Inr (p, c1)"
    by (auto simp: passesChecks_def split: sum.splits)
  note f = autoPullData_frame [OF a]
  define c2 where "c2 = c1\<lparr>evaluation := (evaluation c1)
                         \<lparr>coveredReason := typeMap (incidentType (claimDetails c1))\<rparr>\<rparr>"
  define c3 where "c3 = c2\<lparr>evaluation := (evaluation c2)\<lparr>doubleDipCheck := False\<rparr>\<rparr>"
  from assms(1) a have k:
    "case revenueDropPercent (evaluation c1) of None \<Rightarrow> True | Some q \<Rightarrow> 70 \<le> q"
    "3 \<le> lostDays (evaluation c1)" "enforceCoverage c2 = ''approve''"
    "\<not> isDuplicate now c2 d"
    by (simp_all add: passesChecks_def c2_def)
  have low: "\<not> ((case revenueDropPercent (evaluation c1) of None \<Rightarrow> False | Some q \<Rightarrow> q < 70)
             \<or> lostDays (evaluation c1) < 3)"
    using k(1,2) by (auto split: option.splits)
  have "ownerLoaded c3 d"
    using assms(2) f by (simp add: ownerLoaded_def c3_def c2_def)
  then obtain m where sf: "scanFraud now c3 d = Inl (TypeError m)"
    using scanFraud_loaded by blast
  have "verifyClaim now rnd c d = (Inl (TypeError m), c3, d)"
    using a low k(3,4) sf
    by (simp add: verifyClaim_def Let_def c2_def [symmetric] c3_def [symmetric])
  moreover have "statuses c3 = statuses c"
    "aiAnalysis_fraudScore (evaluation c3) = aiAnalysis_fraudScore (evaluation c)"
    "payoutAmount (evaluation c3) = payoutAmount (evaluation c)"
    using f by (simp_all add: c3_def c2_def)
  ultimately show ?thesis by blast
qed



text \<open>The scenarios of the specification, evaluated.\<close>

lemma scenario_A:
  "observed 1 (verifyClaim scenarioNow 0 scenarioClaim scenarioDb)
     = (Inl (TypeError ''Cannot read properties of undefined (reading length)''),
        [Submitted], 0, Some 80)
   \<and> submitted 1
        (submitClaim scenarioNow 0 10 1 Limited_ads (1100 * day_ms) Not_started scenarioDb)
     = (Http 500 ''Server error submitting claim'', Some [Submitted], Some [], [])"
  by code_simp

lemma scenario_B:
  "observed 1 (verifyClaim scenarioNow 0 laterClaim paidDb)
     = (Inl (TypeError ''Cannot read properties of undefined (reading length)''),
        [Submitted], 0, Some 80)
   \<and> observed 1 (verifyClaim scenarioNow 0 laterClaim (paidDb\<lparr>strictQuery := True\<rparr>))
     = (Inr (Rejected, None, None), [Submitted, Rejected], 0, Some 80)
   \<and> observed 1 (verifyClaim lateNow 0 laterClaim (paidDb\<lparr>strictQuery := True\<rparr>))
     = (Inr (Rejected, None, None), [Submitted, Rejected], 0, Some 80)"
  by code_simp

lemma scenario_D:
  "observed 1 (verifyClaim scenarioNow 0 bandClaim bandDb)
     = (Inl (TypeError ''Cannot read properties of undefined (reading length)''),
        [Submitted], 0, Some 80)
   \<and> submitted 1
        (submitClaim scenarioNow 0 13 1 Limited_ads (1100 * day_ms) Appeal_Rejected bandDb)
     = (Http 500 ''Server error submitting claim'', Some [Submitted], Some [], [])"
  by code_simp

lemma scenario_E:
  "reinstatementObserved 1 (handleReinstatement scenarioNow (Some 2) paidClaim paidDb)
     = (Inl (ValidationError ''User''), [Submitted, Approved, Paid, Reinstated], True, Some 80)
   \<and> reinstatementObserved 1
        (reinstateAgain scenarioNow (Some 2)
          (handleReinstatement scenarioNow (Some 2) paidClaim paidDb))
     = (Inl (ValidationError ''User''), [Submitted, Approved, Paid, Reinstated, Reinstated],
        True, Some 80)
   \<and> reinstatementObserved 1 (handleReinstatement scenarioNow (Some 2) paidClaim settledDb)
     = (Inr 1750, [Submitted, Approved, Paid, Reinstated], True, Some 70)
   \<and> reinstatementObserved 1
        (reinstateAgain scenarioNow (Some 2)
          (handleReinstatement scenarioNow (Some 2) paidClaim settledDb))
     = (Inr 1750, [Submitted, Approved, Paid, Reinstated, Reinstated], True, Some 60)"
  by code_simp

text \<open>
  Scenario E through the controller: the request is answered with status 500 after the
  Reinstated entry was appended, and a second request is refused because the last status
  is no longer Paid.
\<close>

lemma scenario_E_endpoint:
  "(\<lambda>x. (fst x, statuses (fst (snd x)), reinstated (evaluation (fst (snd x))),
          fst (reinstateClaim scenarioNow 2 (fst (snd x)) (snd (snd x)))))
     (reinstateClaim scenarioNow 2 paidClaim paidDb)
   = (Http 500 ''Server error reinstating claim'', [Submitted, Approved, Paid, Reinstated],
      True, Http 400 ''Claim must be paid before reinstatement'')"
  by code_simp

section \<open>The claims\<close>

text \<open>
  C1 (duplicate guard). The claim: the guard searches the same user's other claims with an
  incident date in the trailing 30 days that reached Approved or Paid, flags the claim
  exactly when a matched claim's incident is within 24 hours, and a flagged claim is
  rejected before fraud scoring. On the code the 30 days are a condition on the path
  \<open>incidentDate\<close>, which no claim document has. For stored claims as the Claim model
  writes them, the verdict of the guard does not depend on the time of the check: with
  \<open>strictQuery\<close> false no claim is ever flagged, with \<open>strictQuery\<close> true a claim is
  flagged whenever another claim of the user that reached Approved or Paid lies within 24
  hours, however old it is.
\<close>

theorem duplicate_guard_applies_no_window:
  assumes "list_all (\<lambda>x. top_incidentDate x = None) (claimDocs d)"
  shows "isDuplicate now c d = (strictQuery d \<and> settledWithinDay c d)"
  using assms
  by (auto simp: isDuplicate_def recentClaims_def settledWithinDay_def list_ex_iff
      list_all_iff)

text \<open>
  C1 on scenario B. Without \<open>strictQuery\<close> the second claim, checked five days after the
  incidents, is not flagged, where the search of the specification flags it; with
  \<open>strictQuery\<close> the same claim, checked forty days after the incidents, is flagged,
  where the search of the specification finds nothing inside its 30 days.
\<close>

theorem duplicate_guard_applies_no_window_witness:
  "list_all (\<lambda>x. top_incidentDate x = None) (claimDocs paidDb)
   \<and> \<not> strictQuery paidDb
   \<and> isDuplicate scenarioNow laterClaim paidDb
       = (strictQuery paidDb \<and> settledWithinDay laterClaim paidDb)
   \<and> \<not> isDuplicate scenarioNow laterClaim paidDb
   \<and> claimedDuplicate scenarioNow laterClaim paidDb
   \<and> list_all (\<lambda>x. top_incidentDate x = None) (claimDocs (paidDb\<lparr>strictQuery := True\<rparr>))
   \<and> isDuplicate lateNow laterClaim (paidDb\<lparr>strictQuery := True\<rparr>)
       = (strictQuery (paidDb\<lparr>strictQuery := True\<rparr>)
          \<and> settledWithinDay laterClaim (paidDb\<lparr>strictQuery := True\<rparr>))
   \<and> isDuplicate lateNow laterClaim (paidDb\<lparr>strictQuery := True\<rparr>)
   \<and> \<not> claimedDuplicate lateNow laterClaim (paidDb\<lparr>strictQuery := True\<rparr>)"
proof -
  have a: "list_all (\<lambda>x. top_incidentDate x = None) (claimDocs paidDb)"
    by code_simp
  have b: "list_all (\<lambda>x. top_incidentDate x = None) (claimDocs (paidDb\<lparr>strictQuery := True\<rparr>))"
    by code_simp
  have k: "\<not> strictQuery paidDb" "claimedDuplicate scenarioNow laterClaim paidDb"
    "settledWithinDay laterClaim (paidDb\<lparr>strictQuery := True\<rparr>)"
    "\<not> claimedDuplicate lateNow laterClaim (paidDb\<lparr>strictQuery := True\<rparr>)"
    by code_simp+
  show ?thesis
    using a b k
      duplicate_guard_applies_no_window [OF a, of scenarioNow laterClaim]
      duplicate_guard_applies_no_window [OF b, of lateNow laterClaim]
    by simp
qed

text \<open>
  C2 (branch on the fraud score). The claim: a claim that passes the drop, coverage and
  duplicate checks is approved and paid above a score of 75, held for manual review from
  50 to 75, and rejected for high fraud risk below 50, with the user's fraud standing
  decremented. On the code no branch is reached: the fraud scan reads the video list at
  \<open>user.platformInfo.youtube.videos\<close>, which no user document has, and raises a
  TypeError. Every claim that passes the three checks, of a user document of the User
  model, ends in that error: nothing is appended to its history, no score is stored, no
  payout is calculated, and the database, with every fraud standing, stays as it was.
\<close>

theorem passing_claim_raises_in_fraud_scan:
  assumes "passesChecks now c d" and "ownerLoaded c d"
  shows "\<exists>m c'. verifyClaim now rnd c d = (Inl (TypeError m), c', d)
     \<and> statuses c' = statuses c
     \<and> aiAnalysis_fraudScore (evaluation c') = aiAnalysis_fraudScore (evaluation c)
     \<and> payoutAmount (evaluation c') = payoutAmount (evaluation c)"
  using assms by (rule verifyClaim_passing_loaded)

text \<open>
  C2 on scenario A, which the specification expects to be approved and paid 3500.
\<close>

theorem passing_claim_raises_in_fraud_scan_witness:
  "passesChecks scenarioNow scenarioClaim scenarioDb
   \<and> ownerLoaded scenarioClaim scenarioDb
   \<and> (\<exists>m c'. verifyClaim scenarioNow 0 scenarioClaim scenarioDb
           = (Inl (TypeError m), c', scenarioDb)
        \<and> statuses c' = statuses scenarioClaim
        \<and> aiAnalysis_fraudScore (evaluation c')
            = aiAnalysis_fraudScore (evaluation scenarioClaim)
        \<and> payoutAmount (evaluation c') = payoutAmount (evaluation scenarioClaim))"
proof -
  have p: "passesChecks scenarioNow scenarioClaim scenarioDb"
    by code_simp
  have l: "ownerLoaded scenarioClaim scenarioDb"
    by code_simp
  show ?thesis
    using p l passing_claim_raises_in_fraud_scan [OF p l, of 0] by simp
qed

text \<open>
  C3 (status history). The claim: under every sequence of core operations the history is
  non-empty and append-only, the current status is its last element, and Paid is never
  recorded without an earlier Approved. On the code the bulk review of a valid claim
  processes the payout before it appends its own status. Evaluated on the claim of
  scenario D, held in Manual Review: the bulk review leaves Paid followed by Approved,
  where the single manual review of the same claim leaves Approved followed by Paid.
\<close>

theorem bulk_review_records_paid_before_approved:
  "statuses heldClaim = [Submitted, Manual_Review]
   \<and> statuses (fst (snd (bulkReviewItem scenarioNow 0 2 True ''verified'' heldClaim bandDb)))
       = [Submitted, Manual_Review, Paid, Approved]
   \<and> statuses (fst (snd (reviewClaimManual scenarioNow 0 2 True ''verified'' heldClaim bandDb)))
       = [Submitted, Manual_Review, Approved, Paid]"
  by code_simp




text \<open>
  C5 (reinstatement). The claim: reinstatement succeeds only on a Paid claim that was not
  reinstated before, and a second attempt fails with the "already handled" error and
  changes nothing. On the code the guard of \<open>handleReinstatement\<close> reads
  \<open>this.reinstated\<close> while the flag is written to \<open>this.evaluation.reinstated\<close>, so the
  guard never sees the flag. For every claim document with a Paid entry and a stored
  payout: a first call appends Reinstated and sets the flag; a second call, on the claim
  and database the first one left, appends a second Reinstated entry and is not refused as
  already handled. It returns exactly when the first one returned, and then the user's
  standing is lowered a second time; when the first call raised, the second raises the
  same error.
\<close>

theorem second_reinstatement_is_not_refused:
  assumes "top_reinstated c = None"
    and "list_ex (\<lambda>h. status h = Paid) (statusHistory c)"
    and "payoutAmount (evaluation c) = Some p" and "0 \<le> p"
    and "handleReinstatement now by c d = (r1, c1, d1)"
    and "handleReinstatement now2 by2 c1 d1 = (r2, c2, d2)"
  shows "statuses c1 = statuses c @ [Reinstated] \<and> reinstated (evaluation c1)
     \<and> statuses c2 = statuses c @ [Reinstated, Reinstated]
     \<and> r2 \<noteq> Inl notEligible
     \<and> ((\<exists>x. r1 = Inr x) \<longleftrightarrow> (\<exists>y. r2 = Inr y))
     \<and> (\<forall>x. r1 = Inr x \<longrightarrow>
          (\<exists>u. usersById d (userId (claimDetails c)) = Some u
             \<and> map_option insuranceStatus_fraudScore (usersById d1 (userId (claimDetails c)))
                 = Some (max 50 (insuranceStatus_fraudScore u - 10))
             \<and> map_option insuranceStatus_fraudScore (usersById d2 (userId (claimDetails c)))
                 = Some (max 50 (max 50 (insuranceStatus_fraudScore u - 10) - 10))))
     \<and> (\<forall>e. r1 = Inl e \<longrightarrow> r2 = Inl e \<and> d1 = d \<and> d2 = d)"
proof -
  let ?uid = "userId (claimDetails c)"
  define k1 where "k1 = updateStatus Reinstated by (Text ''Appeal successful'')
                 (ReinstatedRepay (js_round (p / 2)) (now + 30 * day_ms)) now
                 (c\<lparr>evaluation := (evaluation c)
                      \<lparr>reinstated := True, repayAmount := Some (p / 2)\<rparr>\<rparr>)"
  have k1f: "top_reinstated k1 = None" "list_ex (\<lambda>h. status h = Paid) (statusHistory k1)"
    "payoutAmount (evaluation k1) = Some p" "claimDetails k1 = claimDetails c"
    "statuses k1 = statuses c @ [Reinstated]" "reinstated (evaluation k1)"
    using assms(1-3) by (simp_all add: k1_def updateStatus_def statuses_def)
  define k2 where "k2 = updateStatus Reinstated by2 (Text ''Appeal successful'')
                 (ReinstatedRepay (js_round (p / 2)) (now2 + 30 * day_ms)) now2
                 (k1\<lparr>evaluation := (evaluation k1)
                      \<lparr>reinstated := True, repayAmount := Some (p / 2)\<rparr>\<rparr>)"
  have k2f: "statuses k2 = statuses c @ [Reinstated, Reinstated]"
    using k1f(5) by (simp add: k2_def)
  note e1 = handleReinstatement_eligible [OF assms(1-4), of now "by" d, folded k1_def]
  note e2 = handleReinstatement_eligible [OF k1f(1-3) assms(4), of now2 by2 d1, folded k2_def]
  show ?thesis
  proof (cases "usersById d ?uid")
    case None
    with e1 assms(5) have a: "r1 = Inl (TypeError
        ''Cannot read properties of null (reading insuranceStatus)'')" "c1 = k1" "d1 = d"
      by (auto simp: Let_def)
    with e2 assms(6) None k1f(4) have b: "r2 = r1" "c2 = k2" "d2 = d"
      by (auto simp: Let_def)
    show ?thesis
      using a b k1f k2f by (auto simp: notEligible_def)
  next
    case (Some u)
    define u1 where "u1 = u\<lparr>insuranceStatus_fraudScore :=
                              max 50 (insuranceStatus_fraudScore u - 10)\<rparr>"
    show ?thesis
    proof (cases "userValidates u1")
      case False
      with e1 assms(5) Some have a: "r1 = Inl (ValidationError ''User'')" "c1 = k1" "d1 = d"
        by (auto simp: Let_def u1_def)
      with e2 assms(6) Some False k1f(4) have b: "r2 = r1" "c2 = k2" "d2 = d"
        by (auto simp: Let_def u1_def)
      show ?thesis
        using a b k1f k2f by (auto simp: notEligible_def)
    next
      case True
      with e1 assms(5) Some have a: "r1 = Inr \<lparr>repay = p / 2, deadline = now + 30 * day_ms\<rparr>"
        "c1 = k1" "d1 = d\<lparr>usersById := (usersById d)(?uid \<mapsto> u1)\<rparr>"
        by (auto simp: Let_def u1_def)
      have u1d: "usersById d1 ?uid = Some u1"
        using a(3) by simp
      have "insuranceStatus_fraudScore u1 \<le> 100"
        using True by (simp add: userValidates_def)
      then have v2: "userValidates (u1\<lparr>insuranceStatus_fraudScore :=
                                        max 50 (insuranceStatus_fraudScore u1 - 10)\<rparr>)"
        using True by (simp add: userValidates_def)
      from e2 assms(6) a(2) u1d v2 k1f(4)
      have b: "r2 = Inr \<lparr>repay = p / 2, deadline = now2 + 30 * day_ms\<rparr>" "c2 = k2"
        "d2 = d1\<lparr>usersById := (usersById d1)(?uid \<mapsto>
             u1\<lparr>insuranceStatus_fraudScore := max 50 (insuranceStatus_fraudScore u1 - 10)\<rparr>)\<rparr>"
        by (auto simp: Let_def)
      show ?thesis
        using a b k1f k2f Some by (auto simp: u1_def)
    qed
  qed
qed

text \<open>
  C5 on scenario E, with the user as \<open>processPayout\<close> leaves it: the claim history holds
  the entry Paid, so both calls raise when the user is saved, each after appending
  Reinstated, and the standing stays at 80.
\<close>

theorem second_reinstatement_is_not_refused_witness:
  "top_reinstated paidClaim = None
   \<and> list_ex (\<lambda>h. status h = Paid) (statusHistory paidClaim)
   \<and> payoutAmount (evaluation paidClaim) = Some 3500 \<and> (0::real) \<le> 3500
   \<and> (\<exists>c1 c2. handleReinstatement scenarioNow (Some 2) paidClaim paidDb
                 = (Inl (ValidationError ''User''), c1, paidDb)
        \<and> handleReinstatement scenarioNow (Some 2) c1 paidDb
            = (Inl (ValidationError ''User''), c2, paidDb)
        \<and> statuses c1 = statuses paidClaim @ [Reinstated] \<and> reinstated (evaluation c1)
        \<and> statuses c2 = statuses paidClaim @ [Reinstated, Reinstated]
        \<and> (Inl (ValidationError ''User'') :: error + reinstatement_result) \<noteq> Inl notEligible)"
proof -
  have h: "top_reinstated paidClaim = None"
    "list_ex (\<lambda>h. status h = Paid) (statusHistory paidClaim)"
    "payoutAmount (evaluation paidClaim) = Some 3500"
    by code_simp+
  obtain r1 c1 d1 where f: "handleReinstatement scenarioNow (Some 2) paidClaim paidDb
      = (r1, c1, d1)"
    by (cases "handleReinstatement scenarioNow (Some 2) paidClaim paidDb") auto
  obtain r2 c2 d2 where s: "handleReinstatement scenarioNow (Some 2) c1 d1 = (r2, c2, d2)"
    by (cases "handleReinstatement scenarioNow (Some 2) c1 d1") auto
  have "fst (handleReinstatement scenarioNow (Some 2) paidClaim paidDb)
          = Inl (ValidationError ''User'')"
    by code_simp
  with f have r1: "r1 = Inl (ValidationError ''User'')" by simp
  note t = second_reinstatement_is_not_refused [OF h _ f s]
  from t r1 have "r2 = r1" "d1 = paidDb" "d2 = paidDb"
    by simp_all
  with t f s r1 h show ?thesis
    by simp
qed

text \<open>
  C6 (qualifying lost days), as amended. When the user's analytics document exists,
  \<open>autoPullData\<close> counts the post-incident entries (the first ten from the incident date
  on) whose amount is below 30% of the baseline, returns that count, and stores
  \<open>max 3 count\<close> as \<open>evaluation.lostDays\<close>: the stored value is never below 3, also when
  no entry qualifies.
\<close>

theorem stored_lostDays_is_floored:
  assumes "analyticsByUser d (userId (claimDetails c)) = Some a"
  shows "\<exists>r c'. autoPullData c d = Inr (r, c')
     \<and> pulled_lostDays r
         = length (filter (\<lambda>h. amount h < pulled_baselineAvg r * 0.3)
             (postIncident a (incidentDate (claimDetails c))))
     \<and> lostDays (evaluation c') = max 3 (pulled_lostDays r)
     \<and> 3 \<le> lostDays (evaluation c')"
proof -
  from autoPullData_found [OF assms] obtain r c' where
    "autoPullData c d = Inr (r, c')"
    "pulled_lostDays r
       = length (filter (\<lambda>h. amount h < pulled_baselineAvg r * 0.3)
           (postIncident a (incidentDate (claimDetails c))))"
    "lostDays (evaluation c') = max 3 (pulled_lostDays r)"
    by blast
  then show ?thesis by simp
qed

text \<open>The amended C6 on revenue that stays at 1000 a day after the incident.\<close>

theorem stored_lostDays_is_floored_witness:
  "analyticsByUser steadyDb (userId (claimDetails scenarioClaim))
     = Some \<lparr>avgDailyRevenue90d = 1000,
             earningsHistory =
               [onDay 1098 1000, onDay 1099 1000, onDay 1100 1000, onDay 1101 1000,
                onDay 1102 1000]\<rparr>
   \<and> (\<exists>r c'. autoPullData scenarioClaim steadyDb = Inr (r, c')
        \<and> pulled_lostDays r
            = length (filter (\<lambda>h. amount h < pulled_baselineAvg r * 0.3)
                (postIncident
                  \<lparr>avgDailyRevenue90d = 1000,
                   earningsHistory =
                     [onDay 1098 1000, onDay 1099 1000, onDay 1100 1000, onDay 1101 1000,
                      onDay 1102 1000]\<rparr>
                  (incidentDate (claimDetails scenarioClaim))))
        \<and> lostDays (evaluation c') = max 3 (pulled_lostDays r)
        \<and> 3 \<le> lostDays (evaluation c'))"
proof -
  have a: "analyticsByUser steadyDb (userId (claimDetails scenarioClaim))
     = Some \<lparr>avgDailyRevenue90d = 1000,
             earningsHistory =
               [onDay 1098 1000, onDay 1099 1000, onDay 1100 1000, onDay 1101 1000,
                onDay 1102 1000]\<rparr>"
    by (simp add: steadyDb_def scenarioClaim_def newClaim_def scenarioDb_def)
  show ?thesis
    using a stored_lostDays_is_floored [OF a] by simp
qed

text \<open>
  C6 as stated fails when no post-incident entry is below 30% of the baseline: the count
  is 0 and the stored \<open>lostDays\<close> is 3.
\<close>

theorem no_qualifying_day_stored_as_three:
  "map_sum id (\<lambda>x. (pulled_lostDays (fst x), lostDays (evaluation (snd x))))
     (autoPullData scenarioClaim steadyDb) = Inr (0, 3)"
  by code_simp




text \<open>
  C8 (fraud scorer). The claim: for every claim the scorer returns 100 minus the triggered
  penalties, floored at 0, with the list of triggered signals, and the 25-point mismatch
  penalty is triggered exactly when the category is copyright-related and the reported
  incident type is not video demonetization. On the code the scorer returns nothing: it
  reads \<open>.length\<close> of \<open>user.platformInfo.youtube.videos\<close>, which the User schema does not
  declare (the list is \<open>platformInfo.youtube.channel.videos\<close>), so for every claim whose
  user is a document of the User model, and for every claim whose user is not found,
  \<open>scanFraud\<close> raises a TypeError before any signal after the revenue spike is computed
  and before anything is written to the claim.
\<close>

theorem fraud_scan_raises_for_every_user_document:
  assumes "ownerLoaded c d"
  shows "scanFraud now c d
     = Inl (TypeError (if usersById d (userId (claimDetails c)) = None
                       then ''Cannot read properties of null (reading platformInfo)''
                       else ''Cannot read properties of undefined (reading length)''))"
  using assms by (rule scanFraud_loaded)

text \<open>C8 on the stored claim held for manual review and on the new claim of scenario A.\<close>

theorem fraud_scan_raises_for_every_user_document_witness:
  "ownerLoaded heldClaim bandDb
   \<and> scanFraud scenarioNow heldClaim bandDb
       = Inl (TypeError ''Cannot read properties of undefined (reading length)'')
   \<and> ownerLoaded scenarioClaim scenarioDb
   \<and> scanFraud scenarioNow scenarioClaim scenarioDb
       = Inl (TypeError ''Cannot read properties of undefined (reading length)'')"
proof -
  have l: "ownerLoaded heldClaim bandDb" "ownerLoaded scenarioClaim scenarioDb"
    by code_simp+
  have u: "usersById bandDb (userId (claimDetails heldClaim)) \<noteq> None"
    "usersById scenarioDb (userId (claimDetails scenarioClaim)) \<noteq> None"
    by code_simp+
  show ?thesis
    using l u
      fraud_scan_raises_for_every_user_document [OF l(1), of scenarioNow]
      fraud_scan_raises_for_every_user_document [OF l(2), of scenarioNow]
    by simp
qed

text \<open>
  C9 (premium bounds). After the discount check, a recalculation and a manual adjustment
  of a premium whose user exists, the stored \<open>finalPercentage\<close> lies in [2, 5] and the
  stored \<open>finalAmount\<close> in [1000, 5000], whatever the base percentage, the earnings, the
  previous amount and the adjustment are; the values returned are the stored ones.
\<close>

theorem premium_always_within_range:
  assumes "usersById d (premium_userId p) = Some u"
  shows "(\<exists>b p'. checkContentReviewDiscount p d = Inr (b, p') \<and> withinRange p')
       \<and> (\<exists>r p'. recalculatePremium now calcBy p d = Inr (r, p') \<and> withinRange p'
             \<and> r = (finalPercentage p', finalAmount p'))
       \<and> (\<exists>amt p'. adjustPremium now pct reason adminId p d = Inr (amt, p')
             \<and> withinRange p' \<and> amt = finalAmount p')"
  using checkContentReviewDiscount_range [OF assms] recalculatePremium_range [OF assms]
    adjustPremium_range [OF assms]
  by blast

text \<open>C9 on the premium of the scenarios, with a manual adjustment of +1000%.\<close>

theorem premium_always_within_range_witness:
  "usersById scenarioDb (premium_userId scenarioPremium) = Some scenarioUser
   \<and> (\<exists>b p'. checkContentReviewDiscount scenarioPremium scenarioDb = Inr (b, p')
         \<and> withinRange p')
   \<and> (\<exists>r p'. recalculatePremium scenarioNow None scenarioPremium scenarioDb = Inr (r, p')
         \<and> withinRange p' \<and> r = (finalPercentage p', finalAmount p'))
   \<and> (\<exists>amt p'. adjustPremium scenarioNow 1000 ''risk'' 2 scenarioPremium scenarioDb
           = Inr (amt, p') \<and> withinRange p' \<and> amt = finalAmount p')"
proof -
  have u: "usersById scenarioDb (premium_userId scenarioPremium) = Some scenarioUser"
    by (simp add: scenarioDb_def scenarioPremium_def)
  show ?thesis
    using u premium_always_within_range [OF u, where now = scenarioNow and calcBy = None
        and pct = 1000 and reason = "''risk''" and adminId = 2]
    by simp
qed



end
